theory Spec2Isabelle
  imports Complex_Main
begin

section \<open>Latin-hypercube parameter designs (design.py)\<close>

text \<open>
  A shallow embedding of \<^verbatim>\<open>src/design.py\<close>: the sample generator \<^verbatim>\<open>generate_lhs\<close>, the
  constructor of class \<^verbatim>\<open>Design\<close>, its method \<^verbatim>\<open>write_files\<close> and \<^verbatim>\<open>main\<close>.

  Conventions of the embedding.
  \<^item> Python exceptions are values of type \<open>error\<close>; a function that may raise returns
    \<open>error + 'a\<close>, with \<open>Inl\<close> for the exception.
  \<^item> Effects (standard output, the R subprocess, the file system, the call of the
    external module-input writer) are recorded, in program order, as a list of events
    returned next to the result.
  \<^item> Floating-point numbers are real numbers: rounding, overflow and signed zeros are not
    represented. The non-finite values \<open>inf\<close>, \<open>-inf\<close> and \<open>nan\<close> of a numpy
    \<^verbatim>\<open>float64\<close> are represented, since numpy's division produces them instead of raising.
  \<^item> What the Python runtime and the R process do is taken as a parameter: \<open>R\<close> (what
    becomes of \<^verbatim>\<open>subprocess.run\<close>: R cannot be started, or it runs and maps its
    standard input to an exit status and its standard output), \<open>float_of\<close> (the
    conversion of a token to a float done by \<^verbatim>\<open>np.array(..., dtype=float)\<close>) and
    \<open>str_float\<close> (\<^verbatim>\<open>str\<close> of a finite float).
  \<^item> The module \<^verbatim>\<open>configurations\<close> is not part of the sources at hand; the two names used
    from it, \<^verbatim>\<open>n_design_pts\<close> and \<^verbatim>\<open>systems\<close>, are parameters of \<open>main\<close>.
  \<^item> \<^verbatim>\<open>logging\<close> calls are left out; file-system operations always succeed, and so
    does the external \<^verbatim>\<open>write_module_inputs\<close>, of which only the call is recorded.
\<close>

subsection \<open>Values, errors, events\<close>

datatype pykey = IntKey int | StrKey string

datatype error =
    KeyError pykey
  | ValueError
  | TypeError
  | IndexError
  | OSError
  | CalledProcessError "string list" int

datatype float64 = Finite real | PosInf | NegInf | NaN

datatype pyval = Float float64 | Str string

type_synonym path = "string list"

text \<open>The keyword arguments of one call of \<^verbatim>\<open>write_module_inputs\<close> (lines 281--318).\<close>

record module_inputs =
  arg_outdir :: path
  arg_design_point_id :: string
  arg_projectile :: string
  arg_target :: string
  arg_sqrts :: int
  arg_inel_nucleon_cross_section :: pyval
  arg_trento_normalization :: pyval
  arg_trento_fluctuation_k :: pyval
  arg_trento_nucleon_width :: pyval
  arg_tau_R :: pyval
  arg_alpha :: pyval
  arg_eta_over_s_at_kink :: pyval
  arg_zeta_over_s_max :: pyval
  arg_zeta_over_s_width_in_GeV :: pyval
  arg_zeta_over_s_T_peak_in_GeV :: pyval
  arg_zeta_over_s_lambda_asymm :: pyval

datatype event =
    Print string
  | RunR "string list" string
  | Mkdir path
  | Open path
  | Write path string
  | Close path
  | WriteModuleInputs module_inputs

definition bind_err :: "error + 'a \<Rightarrow> ('a \<Rightarrow> error + 'b) \<Rightarrow> error + 'b" where
  "bind_err m f = (case m of Inl e \<Rightarrow> Inl e | Inr x \<Rightarrow> f x)"

definition nl :: string where
  "nl = [CHR 0x0A]"

subsection \<open>\<^verbatim>\<open>str\<close> of integers and values\<close>

fun str_nat :: "nat \<Rightarrow> string" where
  "str_nat n =
     (if n < 10 then [''0123456789'' ! n]
      else str_nat (n div 10) @ [''0123456789'' ! (n mod 10)])"

declare str_nat.simps [simp del]

definition str_int :: "int \<Rightarrow> string" where
  "str_int i = (if i < 0 then CHR ''-'' # str_nat (nat (- i)) else str_nat (nat i))"

fun str_val :: "(real \<Rightarrow> string) \<Rightarrow> pyval \<Rightarrow> string" where
  "str_val str_float (Str s) = s"
| "str_val str_float (Float (Finite x)) = str_float x"
| "str_val str_float (Float PosInf) = ''inf''"
| "str_val str_float (Float NegInf) = ''-inf''"
| "str_val str_float (Float NaN) = ''nan''"

subsection \<open>Dictionaries in insertion order\<close>

text \<open>
  A Python \<^verbatim>\<open>dict\<close> keeps its keys in insertion order; storing under a key that is
  present keeps the key's position. Lookup and \<^verbatim>\<open>pop\<close> of a missing key raise KeyError.
\<close>

fun dict_set :: "(string \<times> 'v) list \<Rightarrow> string \<Rightarrow> 'v \<Rightarrow> (string \<times> 'v) list" where
  "dict_set [] k v = [(k, v)]"
| "dict_set ((k', v') # kvs) k v =
     (if k' = k then (k, v) # kvs else (k', v') # dict_set kvs k v)"

definition dict_of :: "(string \<times> 'v) list \<Rightarrow> (string \<times> 'v) list" where
  "dict_of kvs = foldl (\<lambda>d (k, v). dict_set d k v) [] kvs"

definition dict_get :: "(string \<times> 'v) list \<Rightarrow> string \<Rightarrow> error + 'v" where
  "dict_get d k = (case map_of d k of None \<Rightarrow> Inl (KeyError (StrKey k)) | Some v \<Rightarrow> Inr v)"

definition dict_pop :: "(string \<times> 'v) list \<Rightarrow> string \<Rightarrow> error + ('v \<times> (string \<times> 'v) list)" where
  "dict_pop d k =
     (case map_of d k of
        None \<Rightarrow> Inl (KeyError (StrKey k))
      | Some v \<Rightarrow> Inr (v, filter (\<lambda>kv. fst kv \<noteq> k) d))"

subsection \<open>\<^verbatim>\<open>generate_lhs\<close> (lines 32--61)\<close>

text \<open>
  What \<^verbatim>\<open>subprocess.run(['R', '--slave'], input=..., stdout=PIPE, check=True)\<close> meets.
  Either the program cannot be started (no \<^verbatim>\<open>R\<close> on the path, no permission), and
  \<^verbatim>\<open>subprocess.run\<close> raises OSError (FileNotFoundError and PermissionError are kinds of
  it); or R runs and maps the text on its standard input to an exit status and its
  standard output. The output is represented as
  \<^verbatim>\<open>[l.split() for l in proc.stdout.splitlines()]\<close> yields it: a list of lines, each a
  list of tokens. The event \<open>RunR\<close> records the call of \<^verbatim>\<open>subprocess.run\<close> with its
  command and input.
\<close>

datatype r_result = NotStarted | Exited int "string list list"

type_synonym r_process = "string \<Rightarrow> r_result"

definition lhs_script :: "int \<Rightarrow> int \<Rightarrow> int \<Rightarrow> string" where
  "lhs_script seed npoints ndim =
     nl @ ''        library('lhs')'' @
     nl @ ''        set.seed('' @ str_int seed @ '')'' @
     nl @ ''        write.table(maximinLHS('' @ str_int npoints @ '', '' @ str_int ndim @
          ''), col.names=FALSE, row.names=FALSE)'' @
     nl @ ''        ''"

text \<open>
  \<^verbatim>\<open>np.array(rows, dtype=float)\<close>: every token is converted to a float; a token that is
  not a number and rows of different lengths raise ValueError. No row at all gives an
  array of shape (0,), here the empty list.
\<close>

definition np_array :: "(string \<Rightarrow> real option) \<Rightarrow> string list list \<Rightarrow> error + real list list" where
  "np_array float_of rows =
     (if \<not> list_all (\<lambda>r. length r = length (hd rows)) rows then Inl ValueError
      else case those (map (\<lambda>r. those (map float_of r)) rows) of
             None \<Rightarrow> Inl ValueError
           | Some m \<Rightarrow> Inr m)"

definition generate_lhs ::
  "r_process \<Rightarrow> (string \<Rightarrow> real option) \<Rightarrow> int \<Rightarrow> int \<Rightarrow> int \<Rightarrow> event list \<times> (error + real list list)" where
  "generate_lhs R float_of npoints ndim seed =
     (let cmd = [''R'', ''--slave''];
          script = lhs_script seed npoints ndim
      in case R script of
           NotStarted \<Rightarrow> ([RunR cmd script], Inl OSError)
         | Exited returncode stdout \<Rightarrow>
             if returncode \<noteq> 0 then ([RunR cmd script], Inl (CalledProcessError cmd returncode))
             else ([RunR cmd script], np_array float_of stdout))"

subsection \<open>\<^verbatim>\<open>Design.__init__\<close> (lines 94--197)\<close>

record design =
  system :: string
  projectiles :: string
  target :: string
  beam_energy :: int
  type_d :: string
  keys :: "string list"
  range_d :: "(real \<times> real) list"
  ndim :: nat
  min_d :: "real list"
  max_d :: "real list"
  points :: "string list"
  array :: "real list list"

definition norm_range_table :: "int \<Rightarrow> (real \<times> real) option" where
  "norm_range_table = [2760 \<mapsto> (10, 18)]"

text \<open>The uncommented entries of the list at lines 112--142: key, label, range.\<close>

definition parameter_specs :: "real \<times> real \<Rightarrow> (string \<times> string \<times> (real \<times> real)) list" where
  "parameter_specs norm_range =
     [(''norm'', ''{Norm}'', norm_range),
      (''fluct_k'', ''k {fluct}'', (0.3, 3.0)),
      (''nucleon_width'', ''w [{fm}]'', (0.4, 1.5)),
      (''tau_R'', CHR 0x5C # ''tau {R} [{fm}/c]'', (0.5, 2.0)),
      (''alpha'', CHR 0x5C # ''alpha'', (- 0.5, 0.0)),
      (''eta_over_s_at_kink'', CHR 0x5C # ''eta/s {kink}'', (0.01, 0.25)),
      (''zeta_over_s_max'', CHR 0x5C # ''zeta/s {max}'', (0.0, 0.3)),
      (''zeta_over_s_T_peak_in_GeV'', CHR 0x5C # ''eta/s {Tpeak}'', (0.1, 0.5)),
      (''zeta_over_s_area_fourth'', CHR 0x5C # ''zeta/s {area} [{GeV^2}]'',
         (0.0002 powr 0.25, (0.2 * 0.3) powr 0.25)),
      (''zeta_over_s_lambda_asymm'', CHR 0x5C # ''eta/s {'' @ CHR 0x5C # ''lambda}'', (- 0.8, 0.8))]"

text \<open>
  \<^verbatim>\<open>lhsmin + (self.max - lhsmin)*lhs\<close> with numpy's broadcasting of the two vectors against the
  sample: a row of the sample combines with the vectors when the lengths agree or one of
  them is 1, anything else raises ValueError.
\<close>

definition scale_row :: "real list \<Rightarrow> real list \<Rightarrow> real list \<Rightarrow> error + real list" where
  "scale_row lhsmin mx u =
     (if length u = length mx then
        Inr (map (\<lambda>(lo, hi, x). lo + (hi - lo) * x) (zip lhsmin (zip mx u)))
      else if length u = 1 then
        Inr (map (\<lambda>(lo, hi). lo + (hi - lo) * hd u) (zip lhsmin mx))
      else if length mx = 1 then
        Inr (map (\<lambda>x. hd lhsmin + (hd mx - hd lhsmin) * x) u)
      else Inl ValueError)"

fun scale_rows :: "real list \<Rightarrow> real list \<Rightarrow> real list list \<Rightarrow> error + real list list" where
  "scale_rows lhsmin mx [] = Inr []"
| "scale_rows lhsmin mx (u # us) =
     bind_err (scale_row lhsmin mx u) (\<lambda>r.
     bind_err (scale_rows lhsmin mx us) (\<lambda>rs. Inr (r # rs)))"

definition scale :: "real list \<Rightarrow> real list \<Rightarrow> real list list \<Rightarrow> error + real list list" where
  "scale lhsmin mx lhs =
     (if lhs = [] \<and> length mx \<noteq> 1 then Inl ValueError else scale_rows lhsmin mx lhs)"

definition default_seed :: "bool \<Rightarrow> int option \<Rightarrow> int" where
  "default_seed validation seed =
     (case seed of
        None \<Rightarrow> if validation then 751783496 else 450829120
      | Some s \<Rightarrow> s)"

definition Design_init ::
  "r_process \<Rightarrow> (string \<Rightarrow> real option) \<Rightarrow> string \<times> string \<times> int \<Rightarrow> int \<Rightarrow> bool \<Rightarrow> int option
     \<Rightarrow> event list \<times> (error + design)" where
  "Design_init R float_of sys npoints validation seed =
     (let system_str = fst sys @ fst (snd sys) @ ''-'' @ str_int (snd (snd sys));
          s0 = fst sys; s1 = fst (snd sys); s2 = snd (snd sys);
          printed = [Print ''self.system = '', Print system_str]
      in (case norm_range_table s2 of
            None \<Rightarrow> (printed, Inl (KeyError (IntKey s2)))
          | Some norm_range \<Rightarrow>
             (let specs = parameter_specs norm_range;
                  rng = map (\<lambda>(k, l, r). r) specs;
                  mn = map fst rng;
                  mx = map snd rng;
                  lhsmin = mn;
                  seed' = default_seed validation seed;
                  sampled = generate_lhs R float_of npoints (int (length rng)) seed'
              in (case snd sampled of
                    Inl e \<Rightarrow> (printed @ fst sampled, Inl e)
                  | Inr lhs \<Rightarrow>
                     (case scale lhsmin mx lhs of
                        Inl e \<Rightarrow> (printed @ fst sampled, Inl e)
                      | Inr arr \<Rightarrow>
                          (printed @ fst sampled,
                           Inr \<lparr> system = system_str, projectiles = s0, target = s1,
                                 beam_energy = s2,
                                 type_d = (if validation then ''validation'' else ''main''),
                                 keys = map (\<lambda>(k, l, r). k) specs,
                                 range_d = rng, ndim = length rng, min_d = mn, max_d = mx,
                                 points = map (\<lambda>i. str_int (int i)) [0..<nat npoints],
                                 array = arr \<rparr>))))))"

subsection \<open>\<^verbatim>\<open>Design.write_files\<close> (lines 230--335)\<close>

definition cross_section_table :: "int \<Rightarrow> real option" where
  "cross_section_table = [200 \<mapsto> 4.2, 2760 \<mapsto> 6.4, 5020 \<mapsto> 7.0]"

text \<open>
  The arithmetic of line 265, \<^verbatim>\<open>2./3.141592*(area)**4/zmax\<close>. The operands taken from
  \<^verbatim>\<open>kwargs\<close> are elements of a row of the numpy array \<^verbatim>\<open>self.array\<close>, that is numpy
  \<^verbatim>\<open>float64\<close> scalars, and so is every intermediate result. Division of numpy scalars
  by zero does not raise: it gives \<open>inf\<close>, \<open>-inf\<close> or \<open>nan\<close> (and a RuntimeWarning).
\<close>

fun np_power4 :: "float64 \<Rightarrow> float64" where
  "np_power4 (Finite a) = Finite (a ^ 4)"
| "np_power4 PosInf = PosInf"
| "np_power4 NegInf = PosInf"
| "np_power4 NaN = NaN"

fun np_multiply :: "float64 \<Rightarrow> float64 \<Rightarrow> float64" where
  "np_multiply (Finite a) (Finite b) = Finite (a * b)"
| "np_multiply NaN y = NaN"
| "np_multiply x NaN = NaN"
| "np_multiply (Finite a) PosInf = (if a = 0 then NaN else if 0 < a then PosInf else NegInf)"
| "np_multiply (Finite a) NegInf = (if a = 0 then NaN else if 0 < a then NegInf else PosInf)"
| "np_multiply PosInf (Finite b) = (if b = 0 then NaN else if 0 < b then PosInf else NegInf)"
| "np_multiply NegInf (Finite b) = (if b = 0 then NaN else if 0 < b then NegInf else PosInf)"
| "np_multiply PosInf PosInf = PosInf"
| "np_multiply PosInf NegInf = NegInf"
| "np_multiply NegInf PosInf = NegInf"
| "np_multiply NegInf NegInf = PosInf"

fun np_true_divide :: "float64 \<Rightarrow> float64 \<Rightarrow> float64" where
  "np_true_divide (Finite a) (Finite b) =
     (if b \<noteq> 0 then Finite (a / b)
      else if 0 < a then PosInf else if a < 0 then NegInf else NaN)"
| "np_true_divide NaN y = NaN"
| "np_true_divide x NaN = NaN"
| "np_true_divide (Finite a) PosInf = Finite 0"
| "np_true_divide (Finite a) NegInf = Finite 0"
| "np_true_divide PosInf (Finite b) = (if 0 \<le> b then PosInf else NegInf)"
| "np_true_divide NegInf (Finite b) = (if 0 \<le> b then NegInf else PosInf)"
| "np_true_divide PosInf PosInf = NaN"
| "np_true_divide PosInf NegInf = NaN"
| "np_true_divide NegInf PosInf = NaN"
| "np_true_divide NegInf NegInf = NaN"

text \<open>
  The operands of line 265 as Python values: the numerator \<^verbatim>\<open>2./3.141592*(area)**4\<close> is
  computed before the divisor is looked up.
\<close>

fun width_numerator :: "pyval \<Rightarrow> error + float64" where
  "width_numerator (Float area) = Inr (np_multiply (Finite (2 / 3.141592)) (np_power4 area))"
| "width_numerator (Str s) = Inl TypeError"

fun width_quotient :: "float64 \<Rightarrow> pyval \<Rightarrow> error + pyval" where
  "width_quotient numerator (Float zmax) = Inr (Float (np_true_divide numerator zmax))"
| "width_quotient numerator (Str s) = Inl TypeError"

text \<open>The dictionary \<^verbatim>\<open>kwargs\<close> of one design point, lines 254--266.\<close>

definition point_kwargs :: "design \<Rightarrow> real list \<Rightarrow> error + (string \<times> pyval) list" where
  "point_kwargs d row =
     (case cross_section_table (beam_energy d) of
        None \<Rightarrow> Inl (KeyError (IntKey (beam_energy d)))
      | Some cross_section \<Rightarrow>
          (let kwargs0 = dict_of (zip (keys d) (map (\<lambda>x. Float (Finite x)) row));
               kwargs1 = dict_set kwargs0 ''projectiles'' (Str (projectiles d));
               kwargs2 = dict_set kwargs1 ''cross_section'' (Float (Finite cross_section))
           in bind_err (dict_pop kwargs2 ''zeta_over_s_area_fourth'') (\<lambda>popped.
              bind_err (width_numerator (fst popped)) (\<lambda>numerator.
              bind_err (dict_get (snd popped) ''zeta_over_s_max'') (\<lambda>zmax.
              bind_err (width_quotient numerator zmax) (\<lambda>width.
              Inr (dict_set (snd popped) ''zeta_over_s_width_in_GeV'' width)))))))"

text \<open>The arguments of the call of \<^verbatim>\<open>write_module_inputs\<close>, lines 281--318, in their order.\<close>

definition module_args ::
  "design \<Rightarrow> path \<Rightarrow> string \<Rightarrow> (string \<times> pyval) list \<Rightarrow> error + module_inputs" where
  "module_args d outdir point kwargs =
     bind_err (dict_get kwargs ''cross_section'') (\<lambda>cross_section.
     bind_err (dict_get kwargs ''norm'') (\<lambda>norm.
     bind_err (dict_get kwargs ''fluct_k'') (\<lambda>fluct_k.
     bind_err (dict_get kwargs ''nucleon_width'') (\<lambda>nucleon_width.
     bind_err (dict_get kwargs ''tau_R'') (\<lambda>tau_R.
     bind_err (dict_get kwargs ''alpha'') (\<lambda>alpha.
     bind_err (dict_get kwargs ''eta_over_s_at_kink'') (\<lambda>eta_over_s_at_kink.
     bind_err (dict_get kwargs ''zeta_over_s_max'') (\<lambda>zeta_over_s_max.
     bind_err (dict_get kwargs ''zeta_over_s_width_in_GeV'') (\<lambda>zeta_over_s_width_in_GeV.
     bind_err (dict_get kwargs ''zeta_over_s_T_peak_in_GeV'') (\<lambda>zeta_over_s_T_peak_in_GeV.
     bind_err (dict_get kwargs ''zeta_over_s_lambda_asymm'') (\<lambda>zeta_over_s_lambda_asymm.
     Inr \<lparr> arg_outdir = outdir,
           arg_design_point_id = point,
           arg_projectile = projectiles d,
           arg_target = projectiles d,
           arg_sqrts = beam_energy d,
           arg_inel_nucleon_cross_section = cross_section,
           arg_trento_normalization = norm,
           arg_trento_fluctuation_k = fluct_k,
           arg_trento_nucleon_width = nucleon_width,
           arg_tau_R = tau_R,
           arg_alpha = alpha,
           arg_eta_over_s_at_kink = eta_over_s_at_kink,
           arg_zeta_over_s_max = zeta_over_s_max,
           arg_zeta_over_s_width_in_GeV = zeta_over_s_width_in_GeV,
           arg_zeta_over_s_T_peak_in_GeV = zeta_over_s_T_peak_in_GeV,
           arg_zeta_over_s_lambda_asymm = zeta_over_s_lambda_asymm \<rparr>)))))))))))"

text \<open>One pass of the loop over the design points, lines 251--324.\<close>

definition write_point ::
  "(real \<Rightarrow> string) \<Rightarrow> design \<Rightarrow> path \<Rightarrow> path \<Rightarrow> string \<times> real list \<Rightarrow> event list \<times> (error + unit)" where
  "write_point str_float d outdir design_file pr =
     (case bind_err (point_kwargs d (snd pr)) (\<lambda>kwargs.
           bind_err (module_args d outdir (fst pr) kwargs) (\<lambda>args. Inr (kwargs, args))) of
        Inl e \<Rightarrow> ([], Inl e)
      | Inr (kwargs, args) \<Rightarrow>
          ([WriteModuleInputs args, Write design_file (fst pr)] @
           map (\<lambda>kv. Write design_file ('','' @ str_val str_float (snd kv))) kwargs @
           [Write design_file nl],
           Inr ()))"

fun write_points ::
  "(real \<Rightarrow> string) \<Rightarrow> design \<Rightarrow> path \<Rightarrow> path \<Rightarrow> (string \<times> real list) list
     \<Rightarrow> event list \<times> (error + unit)" where
  "write_points str_float d outdir design_file [] = ([], Inr ())"
| "write_points str_float d outdir design_file (pr # prs) =
     (case write_point str_float d outdir design_file pr of
        (tr, Inl e) \<Rightarrow> (tr, Inl e)
      | (tr, Inr u) \<Rightarrow>
          (tr @ fst (write_points str_float d outdir design_file prs),
           snd (write_points str_float d outdir design_file prs)))"

text \<open>The loop over the parameter ranges, lines 333--334.\<close>

fun write_ranges ::
  "(real \<Rightarrow> string) \<Rightarrow> design \<Rightarrow> path \<Rightarrow> nat list \<Rightarrow> event list \<times> (error + unit)" where
  "write_ranges str_float d range_file [] = ([], Inr ())"
| "write_ranges str_float d range_file (i # is) =
     (if i < length (range_d d) then
        (Write range_file
           (keys d ! i @ '','' @ str_float (fst (range_d d ! i)) @ '','' @
            str_float (snd (range_d d ! i)) @ nl)
         # fst (write_ranges str_float d range_file is),
         snd (write_ranges str_float d range_file is))
      else ([], Inl IndexError))"

definition design_file_name :: "design \<Rightarrow> string" where
  "design_file_name d = ''design_points_'' @ type_d d @ ''_'' @ system d @ ''.dat''"

definition range_file_name :: "design \<Rightarrow> string" where
  "range_file_name d = ''design_ranges_'' @ type_d d @ ''_'' @ system d @ ''.dat''"

definition write_files :: "(real \<Rightarrow> string) \<Rightarrow> design \<Rightarrow> path \<Rightarrow> event list \<times> (error + unit)" where
  "write_files str_float d basedir =
     (let outdir = basedir @ [type_d d, system d];
          design_file = basedir @ [design_file_name d];
          header =
            [Mkdir outdir, Open design_file, Write design_file ''idx''] @
            map (\<lambda>key. Write design_file ('','' @ key)) (keys d) @
            [Write design_file nl];
          looped = write_points str_float d outdir design_file (zip (points d) (array d))
      in (case snd looped of
            Inl e \<Rightarrow> (header @ fst looped, Inl e)
          | Inr u \<Rightarrow>
             (let range_file = basedir @ [range_file_name d];
                  ranges = write_ranges str_float d range_file [0..<length (keys d)]
              in (case snd ranges of
                    Inl e \<Rightarrow>
                      (header @ fst looped @ [Close design_file, Open range_file,
                         Write range_file (''param,min,max'' @ nl)] @ fst ranges, Inl e)
                  | Inr u' \<Rightarrow>
                      (header @ fst looped @ [Close design_file, Open range_file,
                         Write range_file (''param,min,max'' @ nl)] @ fst ranges @
                       [Close range_file], Inr ())))))"

subsection \<open>\<^verbatim>\<open>main\<close> (lines 337--349)\<close>

text \<open>The body of the loop of \<^verbatim>\<open>main\<close>: \<^verbatim>\<open>Design(system, ...).write_files(inputs_dir)\<close>.\<close>

definition design_and_write ::
  "r_process \<Rightarrow> (string \<Rightarrow> real option) \<Rightarrow> (real \<Rightarrow> string) \<Rightarrow> string \<times> string \<times> int \<Rightarrow> int \<Rightarrow> bool
     \<Rightarrow> int option \<Rightarrow> path \<Rightarrow> event list \<times> (error + unit)" where
  "design_and_write R float_of str_float sys npoints validation seed inputs_dir =
     (let built = Design_init R float_of sys npoints validation seed
      in (case snd built of
            Inl e \<Rightarrow> (fst built, Inl e)
          | Inr d \<Rightarrow>
             (fst built @ fst (write_files str_float d inputs_dir),
              snd (write_files str_float d inputs_dir))))"

fun main_loop ::
  "r_process \<Rightarrow> (string \<Rightarrow> real option) \<Rightarrow> (real \<Rightarrow> string) \<Rightarrow> int \<Rightarrow> path
     \<Rightarrow> ((string \<times> string \<times> int) \<times> bool) list \<Rightarrow> event list \<times> (error + unit)" where
  "main_loop R float_of str_float n_design_pts inputs_dir [] = ([], Inr ())"
| "main_loop R float_of str_float n_design_pts inputs_dir (sv # svs) =
     (case design_and_write R float_of str_float (fst sv) n_design_pts (snd sv) None inputs_dir of
        (tr, Inl e) \<Rightarrow> (tr, Inl e)
      | (tr, Inr u) \<Rightarrow>
          (tr @ fst (main_loop R float_of str_float n_design_pts inputs_dir svs),
           snd (main_loop R float_of str_float n_design_pts inputs_dir svs)))"

definition main ::
  "r_process \<Rightarrow> (string \<Rightarrow> real option) \<Rightarrow> (real \<Rightarrow> string) \<Rightarrow> int \<Rightarrow> (string \<times> string \<times> int) list
     \<Rightarrow> path \<Rightarrow> event list \<times> (error + unit)" where
  "main R float_of str_float n_design_pts systems inputs_dir =
     main_loop R float_of str_float n_design_pts inputs_dir
       (concat (map (\<lambda>s. [(s, False), (s, True)]) systems))"

subsection \<open>Reading a file back from the events\<close>

text \<open>
  The text of the file at a path after a run: opening for writing empties the file, a
  write appends. \<open>None\<close> when the run never opened the file.
\<close>

fun file_content :: "path \<Rightarrow> event list \<Rightarrow> string option \<Rightarrow> string option" where
  "file_content p [] acc = acc"
| "file_content p (Open q # es) acc = file_content p es (if q = p then Some [] else acc)"
| "file_content p (Write q s # es) acc =
     file_content p es (if q = p then map_option (\<lambda>c. c @ s) acc else acc)"
| "file_content p (e # es) acc = file_content p es acc"

subsection \<open>The active parameters, written out\<close>

text \<open>The keys and ranges of \<open>parameter_specs\<close> for the one known beam energy.\<close>

definition active_keys :: "string list" where
  "active_keys =
     [''norm'', ''fluct_k'', ''nucleon_width'', ''tau_R'', ''alpha'', ''eta_over_s_at_kink'',
      ''zeta_over_s_max'', ''zeta_over_s_T_peak_in_GeV'', ''zeta_over_s_area_fourth'',
      ''zeta_over_s_lambda_asymm'']"

definition active_ranges :: "(real \<times> real) list" where
  "active_ranges =
     [(10, 18), (0.3, 3.0), (0.4, 1.5), (0.5, 2.0), (- 0.5, 0.0), (0.01, 0.25), (0.0, 0.3),
      (0.1, 0.5), (0.0002 powr 0.25, (0.2 * 0.3) powr 0.25), (- 0.8, 0.8)]"

subsection \<open>Reading the range table back\<close>

text \<open>
  The reader of the range table is not part of \<^verbatim>\<open>design.py\<close>. It follows the format of
  the specification: a header line \<^verbatim>\<open>param,min,max\<close>, then one line
  \<^verbatim>\<open>key,min,max\<close> per parameter, the two numbers parsed back to floats.
\<close>

fun split_on :: "char \<Rightarrow> string \<Rightarrow> string list" where
  "split_on c [] = [[]]"
| "split_on c (x # xs) =
     (if x = c then [] # split_on c xs
      else (case split_on c xs of [] \<Rightarrow> [[x]] | w # ws \<Rightarrow> (x # w) # ws))"

definition parse_range_row :: "(string \<Rightarrow> real option) \<Rightarrow> string \<Rightarrow> (string \<times> real \<times> real) option" where
  "parse_range_row float_of line =
     (case split_on CHR '','' line of
        [k, a, b] \<Rightarrow>
          (case float_of a of
             None \<Rightarrow> None
           | Some lo \<Rightarrow> (case float_of b of None \<Rightarrow> None | Some hi \<Rightarrow> Some (k, lo, hi)))
      | _ \<Rightarrow> None)"

definition read_range_file ::
  "(string \<Rightarrow> real option) \<Rightarrow> string \<Rightarrow> (string \<times> real \<times> real) list option" where
  "read_range_file float_of content =
     (case split_on (CHR 0x0A) content of
        [] \<Rightarrow> None
      | header # rest \<Rightarrow>
          if header = ''param,min,max'' \<and> rest \<noteq> [] \<and> last rest = []
          then those (map (parse_range_row float_of) (butlast rest))
          else None)"

text \<open>A line of the range table as \<open>write_files\<close> writes it, without its newline.\<close>

definition range_line :: "(real \<Rightarrow> string) \<Rightarrow> string \<times> real \<times> real \<Rightarrow> string" where
  "range_line sf kr = fst kr @ '','' @ sf (fst (snd kr)) @ '','' @ sf (snd (snd kr))"

subsection \<open>A concrete run\<close>

text \<open>
  An R process that prints a sample of two points in ten dimensions, with a 0 in the
  column of \<^verbatim>\<open>zeta_over_s_max\<close> of the second point; one that exits with status 1, as R
  does when \<^verbatim>\<open>maximinLHS\<close> stops with an error; a machine without R; conversions between
  floats and text that cover the numbers of this run.
\<close>

definition R_demo :: r_process where
  "R_demo script =
     Exited 0
        [[''0.25'', ''0.25'', ''0.25'', ''0.25'', ''0.25'', ''0.25'', ''0.75'', ''0.25'', ''0.25'', ''0.25''],
         [''0.75'', ''0.75'', ''0.75'', ''0.75'', ''0.75'', ''0.75'', ''0'', ''0.75'', ''0.75'', ''0.75'']]"

definition R_rejects :: r_process where
  "R_rejects script = Exited 1 []"

definition R_missing :: r_process where
  "R_missing script = NotStarted"

definition float_of_demo :: "string \<Rightarrow> real option" where
  "float_of_demo tok =
     (if tok = ''0.25'' then Some 0.25 else if tok = ''0.75'' then Some 0.75
      else if tok = ''0'' then Some 0
      else if tok = ''0.11892071150027211'' then Some (0.0002 powr 0.25)
      else if tok = ''0.4949232003839765'' then Some ((0.2 * 0.3) powr 0.25)
      else if tok = ''10.0'' then Some 10 else if tok = ''18.0'' then Some 18
      else if tok = ''0.3'' then Some 0.3 else if tok = ''3.0'' then Some 3
      else if tok = ''0.4'' then Some 0.4 else if tok = ''1.5'' then Some 1.5
      else if tok = ''0.5'' then Some 0.5 else if tok = ''2.0'' then Some 2
      else if tok = ''-0.5'' then Some (- 0.5) else if tok = ''0.0'' then Some 0
      else if tok = ''0.01'' then Some 0.01
      else if tok = ''0.1'' then Some 0.1
      else if tok = ''-0.8'' then Some (- 0.8) else if tok = ''0.8'' then Some 0.8
      else None)"

definition str_float_demo :: "real \<Rightarrow> string" where
  "str_float_demo x =
     (if x = 0.0002 powr 0.25 then ''0.11892071150027211''
      else if x = (0.2 * 0.3) powr 0.25 then ''0.4949232003839765''
      else if x = 10 then ''10.0'' else if x = 18 then ''18.0''
      else if x = 0.3 then ''0.3'' else if x = 3 then ''3.0''
      else if x = 0.4 then ''0.4'' else if x = 1.5 then ''1.5''
      else if x = 0.5 then ''0.5'' else if x = 2 then ''2.0''
      else if x = - 0.5 then ''-0.5'' else if x = 0 then ''0.0''
      else if x = 0.01 then ''0.01'' else if x = 0.25 then ''0.25''
      else if x = 0.1 then ''0.1''
      else if x = - 0.8 then ''-0.8'' else if x = 0.8 then ''0.8''
      else ''?'')"

definition area_demo :: "real \<Rightarrow> real" where
  "area_demo u = 0.0002 powr 0.25 + ((0.2 * 0.3) powr 0.25 - 0.0002 powr 0.25) * u"

definition demo_width :: "real" where
  "demo_width = 2 / 3.141592 * area_demo (1 / 4) ^ 4 / 0.225"

definition design_demo :: "string \<Rightarrow> string \<Rightarrow> design" where
  "design_demo p t =
     \<lparr> system = p @ t @ ''-2760'', projectiles = p, target = t, beam_energy = 2760,
       type_d = ''main'', keys = active_keys, range_d = active_ranges, ndim = 10,
       min_d = map fst active_ranges, max_d = map snd active_ranges,
       points = [''0'', ''1''],
       array = [[12, 0.975, 0.675, 0.875, - 0.375, 0.07, 0.225, 0.2, area_demo (1 / 4), - 0.4],
                [16, 2.325, 1.225, 1.625, - 0.125, 0.19, 0, 0.4, area_demo (3 / 4), 0.4]] \<rparr>"

section \<open>Properties\<close>

subsection \<open>Basic facts\<close>

lemma bind_err_simps [simp]:
  "bind_err (Inl e) f = Inl e" "bind_err (Inr x) f = f x"
  by (simp_all add: bind_err_def)

lemma bind_err_Inr_iff: "bind_err m f = Inr y \<longleftrightarrow> (\<exists>x. m = Inr x \<and> f x = Inr y)"
  by (cases m) simp_all

lemma specs_keys: "map (\<lambda>(k, l, r). k) (parameter_specs (10, 18)) = active_keys"
  by (simp add: parameter_specs_def active_keys_def)

lemma specs_ranges: "map (\<lambda>(k, l, r). r) (parameter_specs (10, 18)) = active_ranges"
  by (simp add: parameter_specs_def active_ranges_def)

lemma length_active [simp]: "length active_ranges = 10" "length active_keys = 10"
  by (simp_all add: active_ranges_def active_keys_def)

lemma length_specs: "length (parameter_specs r) = 10"
  by (simp add: parameter_specs_def)

lemma str_int_2760: "str_int 2760 = ''2760''"
  by (simp add: str_int_def str_nat.simps)

lemma length_10:
  "length xs = 10 \<Longrightarrow> \<exists>a0 a1 a2 a3 a4 a5 a6 a7 a8 a9. xs = [a0, a1, a2, a3, a4, a5, a6, a7, a8, a9]"
  by (auto simp: numeral_eq_Suc length_Suc_conv)

lemma upt_10: "[0..<10] = [0, 1, 2, 3, 4, 5, 6, 7, 8, 9]"
  by (simp add: upt_rec)

subsection \<open>What a constructed design looks like\<close>

lemma Design_init_Inr:
  assumes "snd (Design_init R float_of sys npoints validation seed) = Inr d"
  shows "snd (snd sys) = 2760"
    and "\<exists>lhs arr. snd (generate_lhs R float_of npoints 10 (default_seed validation seed)) = Inr lhs \<and>
           scale (map fst active_ranges) (map snd active_ranges) lhs = Inr arr \<and>
           d = \<lparr> system = fst sys @ fst (snd sys) @ ''-2760'', projectiles = fst sys,
                 target = fst (snd sys), beam_energy = 2760,
                 type_d = (if validation then ''validation'' else ''main''),
                 keys = active_keys, range_d = active_ranges, ndim = 10,
                 min_d = map fst active_ranges, max_d = map snd active_ranges,
                 points = map (\<lambda>i. str_int (int i)) [0..<nat npoints],
                 array = arr \<rparr>"
proof -
  from assms show e: "snd (snd sys) = 2760"
    by (cases "snd (snd sys) = 2760") (auto simp: Design_init_def Let_def norm_range_table_def)
  from assms e show "\<exists>lhs arr. snd (generate_lhs R float_of npoints 10 (default_seed validation seed)) = Inr lhs \<and>
           scale (map fst active_ranges) (map snd active_ranges) lhs = Inr arr \<and>
           d = \<lparr> system = fst sys @ fst (snd sys) @ ''-2760'', projectiles = fst sys,
                 target = fst (snd sys), beam_energy = 2760,
                 type_d = (if validation then ''validation'' else ''main''),
                 keys = active_keys, range_d = active_ranges, ndim = 10,
                 min_d = map fst active_ranges, max_d = map snd active_ranges,
                 points = map (\<lambda>i. str_int (int i)) [0..<nat npoints],
                 array = arr \<rparr>"
    by (auto simp: Design_init_def Let_def norm_range_table_def specs_keys specs_ranges
          str_int_2760 length_specs split: sum.splits)
qed

lemma scale_row_length:
  assumes "scale_row lhsmin mx u = Inr r" and "length lhsmin = 10" and "length mx = 10"
  shows "length r = 10"
  using assms by (auto simp: scale_row_def split: if_splits)

lemma scale_rows_length:
  assumes "scale_rows lhsmin mx lhs = Inr arr" and "length lhsmin = 10" and "length mx = 10"
  shows "\<forall>r\<in>set arr. length r = 10"
  using assms
proof (induction lhs arbitrary: arr)
  case Nil
  then show ?case by simp
next
  case (Cons u us)
  then show ?case
    by (auto simp: bind_err_Inr_iff dest: scale_row_length)
qed

lemma Design_init_rows:
  assumes "snd (Design_init R float_of sys npoints validation seed) = Inr d"
  shows "\<forall>r\<in>set (array d). length r = 10"
proof -
  from Design_init_Inr(2)[OF assms] obtain lhs arr where
    "scale (map fst active_ranges) (map snd active_ranges) lhs = Inr arr" and "array d = arr"
    by auto
  then show ?thesis
    using scale_rows_length[of "map fst active_ranges" "map snd active_ranges" lhs arr]
    by (auto simp: scale_def split: if_splits)
qed

lemma scale_row_error: "scale_row a b u = Inl e \<Longrightarrow> e = ValueError"
  by (auto simp: scale_row_def split: if_splits)

lemma scale_rows_error: "scale_rows a b lhs = Inl e \<Longrightarrow> e = ValueError"
proof (induction lhs)
  case Nil
  then show ?case by simp
next
  case (Cons u us)
  then show ?case
    by (cases "scale_row a b u"; cases "scale_rows a b us") (auto dest: scale_row_error)
qed

lemma scale_error: "scale a b lhs = Inl e \<Longrightarrow> e = ValueError"
  by (auto simp: scale_def split: if_splits dest: scale_rows_error)

lemma np_array_error: "np_array fo rows = Inl e \<Longrightarrow> e = ValueError"
  by (auto simp: np_array_def split: if_splits option.splits)

lemma generate_lhs_error:
  "snd (generate_lhs R fo n k s) = Inl e \<Longrightarrow>
     e = ValueError \<or> e = OSError \<or> (\<exists>rc. e = CalledProcessError [''R'', ''--slave''] rc)"
  by (auto simp: generate_lhs_def Let_def split: r_result.splits if_splits dest: np_array_error)

lemma Design_init_KeyError:
  assumes "snd (Design_init R fo sys n v s) = Inl (KeyError k)"
  shows "k = IntKey (snd (snd sys)) \<and> norm_range_table (snd (snd sys)) = None \<and>
         fst (Design_init R fo sys n v s) =
           [Print ''self.system = '', Print (fst sys @ fst (snd sys) @ ''-'' @ str_int (snd (snd sys)))]"
  using assms
  by (auto simp: Design_init_def Let_def split: option.splits sum.splits
           dest: scale_error generate_lhs_error)

subsection \<open>One design point\<close>

lemma point_kwargs_explicit:
  assumes "beam_energy d = 2760" and "keys d = active_keys"
  shows "point_kwargs d [a0, a1, a2, a3, a4, a5, a6, a7, a8, a9] =
     Inr [(''norm'', Float (Finite a0)), (''fluct_k'', Float (Finite a1)),
          (''nucleon_width'', Float (Finite a2)), (''tau_R'', Float (Finite a3)),
          (''alpha'', Float (Finite a4)), (''eta_over_s_at_kink'', Float (Finite a5)),
          (''zeta_over_s_max'', Float (Finite a6)),
          (''zeta_over_s_T_peak_in_GeV'', Float (Finite a7)),
          (''zeta_over_s_lambda_asymm'', Float (Finite a9)),
          (''projectiles'', Str (projectiles d)),
          (''cross_section'', Float (Finite 6.4)),
          (''zeta_over_s_width_in_GeV'',
             Float (np_true_divide (Finite (2 / 3.141592 * a8 ^ 4)) (Finite a6)))]"
  using assms
  by (simp add: point_kwargs_def cross_section_table_def active_keys_def dict_of_def
        dict_pop_def dict_get_def Let_def)

lemma module_args_explicit:
  "module_args d outdir point
     [(''norm'', v0), (''fluct_k'', v1), (''nucleon_width'', v2), (''tau_R'', v3),
      (''alpha'', v4), (''eta_over_s_at_kink'', v5), (''zeta_over_s_max'', v6),
      (''zeta_over_s_T_peak_in_GeV'', v7), (''zeta_over_s_lambda_asymm'', v9),
      (''projectiles'', vp), (''cross_section'', vc), (''zeta_over_s_width_in_GeV'', vw)] =
   Inr \<lparr> arg_outdir = outdir, arg_design_point_id = point,
         arg_projectile = projectiles d, arg_target = projectiles d,
         arg_sqrts = beam_energy d,
         arg_inel_nucleon_cross_section = vc, arg_trento_normalization = v0,
         arg_trento_fluctuation_k = v1, arg_trento_nucleon_width = v2,
         arg_tau_R = v3, arg_alpha = v4, arg_eta_over_s_at_kink = v5,
         arg_zeta_over_s_max = v6, arg_zeta_over_s_width_in_GeV = vw,
         arg_zeta_over_s_T_peak_in_GeV = v7, arg_zeta_over_s_lambda_asymm = v9 \<rparr>"
  by (simp add: module_args_def dict_get_def)

lemma write_point_explicit:
  assumes "beam_energy d = 2760" and "keys d = active_keys"
  shows "write_point sf d outdir f (pt, [a0, a1, a2, a3, a4, a5, a6, a7, a8, a9]) =
    ([WriteModuleInputs
        \<lparr> arg_outdir = outdir, arg_design_point_id = pt,
          arg_projectile = projectiles d, arg_target = projectiles d, arg_sqrts = 2760,
          arg_inel_nucleon_cross_section = Float (Finite 6.4),
          arg_trento_normalization = Float (Finite a0),
          arg_trento_fluctuation_k = Float (Finite a1),
          arg_trento_nucleon_width = Float (Finite a2),
          arg_tau_R = Float (Finite a3), arg_alpha = Float (Finite a4),
          arg_eta_over_s_at_kink = Float (Finite a5),
          arg_zeta_over_s_max = Float (Finite a6),
          arg_zeta_over_s_width_in_GeV =
            Float (np_true_divide (Finite (2 / 3.141592 * a8 ^ 4)) (Finite a6)),
          arg_zeta_over_s_T_peak_in_GeV = Float (Finite a7),
          arg_zeta_over_s_lambda_asymm = Float (Finite a9) \<rparr>,
      Write f pt,
      Write f ('','' @ sf a0), Write f ('','' @ sf a1), Write f ('','' @ sf a2),
      Write f ('','' @ sf a3), Write f ('','' @ sf a4), Write f ('','' @ sf a5),
      Write f ('','' @ sf a6), Write f ('','' @ sf a7), Write f ('','' @ sf a9),
      Write f ('','' @ projectiles d), Write f ('','' @ sf 6.4),
      Write f ('','' @ str_val sf (Float (np_true_divide (Finite (2 / 3.141592 * a8 ^ 4)) (Finite a6)))),
      Write f nl],
     Inr ())"
  by (simp add: write_point_def point_kwargs_explicit[OF assms] module_args_explicit assms(1))

lemma write_point_ok:
  assumes "beam_energy d = 2760" and "keys d = active_keys" and "length (snd pr) = 10"
  shows "snd (write_point sf d outdir f pr) = Inr ()"
proof -
  from length_10[OF assms(3)] obtain a0 a1 a2 a3 a4 a5 a6 a7 a8 a9
    where r: "snd pr = [a0, a1, a2, a3, a4, a5, a6, a7, a8, a9]" by blast
  then have "pr = (fst pr, [a0, a1, a2, a3, a4, a5, a6, a7, a8, a9])"
    by (cases pr) simp
  then show ?thesis
    using write_point_explicit[OF assms(1,2), of sf outdir f "fst pr" a0 a1 a2 a3 a4 a5 a6 a7 a8 a9]
    by simp
qed

subsection \<open>The loops of \<open>write_files\<close>\<close>

lemma write_points_ok:
  assumes "beam_energy d = 2760" and "keys d = active_keys"
    and "\<forall>pr\<in>set prs. length (snd pr) = 10"
  shows "snd (write_points sf d outdir f prs) = Inr ()"
  using assms(3)
proof (induction prs)
  case Nil
  then show ?case by simp
next
  case (Cons pr prs)
  have "snd (write_point sf d outdir f pr) = Inr ()"
    using write_point_ok[OF assms(1,2)] Cons.prems by simp
  with Cons show ?case
    by (auto split: prod.splits sum.splits)
qed

lemma write_ranges_events:
  assumes "\<forall>i\<in>set is. i < length (range_d d)"
  shows "write_ranges sf d f is =
    (map (\<lambda>i. Write f (keys d ! i @ '','' @ sf (fst (range_d d ! i)) @ '','' @
                         sf (snd (range_d d ! i)) @ nl)) is, Inr ())"
  using assms by (induction "is") auto

lemma write_files_ok:
  assumes "snd (Design_init R fo sys n v s) = Inr d"
  shows "snd (write_files sf d dir) = Inr ()"
proof -
  from Design_init_Inr(2)[OF assms] have
    b: "beam_energy d = 2760" and k: "keys d = active_keys" and r: "range_d d = active_ranges"
    by auto
  have rows: "\<forall>pr\<in>set (zip (points d) (array d)). length (snd pr) = 10"
    using Design_init_rows[OF assms] by (auto dest: set_zip_rightD)
  have p: "snd (write_points sf d (dir @ [type_d d, system d]) (dir @ [design_file_name d])
             (zip (points d) (array d))) = Inr ()"
    by (rule write_points_ok[OF b k rows])
  have q: "snd (write_ranges sf d (dir @ [range_file_name d]) [0..<length (keys d)]) = Inr ()"
    by (subst write_ranges_events) (simp_all add: k r)
  show ?thesis
    by (simp add: write_files_def Let_def p q)
qed

lemma design_and_write_result:
  "snd (design_and_write R fo sf sys n v s dir) =
     (case snd (Design_init R fo sys n v s) of Inl e \<Rightarrow> Inl e | Inr d \<Rightarrow> Inr ())"
  by (auto simp: design_and_write_def Let_def write_files_ok split: sum.splits)

subsection \<open>The module-input writer's arguments\<close>

lemma module_args_target:
  assumes "module_args d outdir point kwargs = Inr args"
  shows "arg_target args = projectiles d \<and> arg_projectile args = projectiles d"
  using assms unfolding module_args_def
  by (auto simp: bind_err_Inr_iff)

lemma write_point_target:
  assumes "WriteModuleInputs m \<in> set (fst (write_point sf d outdir f pr))"
  shows "arg_target m = projectiles d \<and> arg_projectile m = projectiles d"
  using assms
  by (auto simp: write_point_def bind_err_Inr_iff split: sum.splits dest: module_args_target)

lemma write_points_target:
  assumes "WriteModuleInputs m \<in> set (fst (write_points sf d outdir f prs))"
  shows "arg_target m = projectiles d \<and> arg_projectile m = projectiles d"
  using assms
proof (induction prs)
  case Nil
  then show ?case by simp
next
  case (Cons pr prs)
  then show ?case
    using write_point_target[of m sf d outdir f pr]
    by (auto split: prod.splits sum.splits)
qed

lemma write_ranges_no_module:
  "WriteModuleInputs m \<notin> set (fst (write_ranges sf d f is))"
  by (induction "is") auto

lemma write_files_target:
  assumes "WriteModuleInputs m \<in> set (fst (write_files sf d dir))"
  shows "arg_target m = projectiles d \<and> arg_projectile m = projectiles d"
  using assms write_points_target[of m sf d] write_ranges_no_module[of m sf d]
  by (auto simp: write_files_def Let_def split: sum.splits)

lemma Design_init_no_module:
  "WriteModuleInputs m \<notin> set (fst (Design_init R fo sys n v s))"
  by (auto simp: Design_init_def Let_def generate_lhs_def
           split: option.splits sum.splits r_result.splits if_splits)

lemma point_kwargs_target_field:
  "point_kwargs (d\<lparr>target := x\<rparr>) row = point_kwargs d row"
  by (simp add: point_kwargs_def Let_def split: option.splits)

lemma module_args_target_field:
  "module_args (d\<lparr>target := x\<rparr>) outdir point kwargs = module_args d outdir point kwargs"
  by (simp add: module_args_def)

lemma write_point_target_field:
  "write_point sf (d\<lparr>target := x\<rparr>) outdir f pr = write_point sf d outdir f pr"
  by (simp add: write_point_def point_kwargs_target_field module_args_target_field)

lemma write_points_target_field:
  "write_points sf (d\<lparr>target := x\<rparr>) outdir f prs = write_points sf d outdir f prs"
  by (induction prs) (simp_all add: write_point_target_field)

lemma write_ranges_target_field:
  "write_ranges sf (d\<lparr>target := x\<rparr>) f is = write_ranges sf d f is"
  by (induction "is") simp_all

subsection \<open>The concrete run\<close>

lemma generate_lhs_demo:
  "generate_lhs R_demo float_of_demo npoints k seed =
     ([RunR [''R'', ''--slave''] (lhs_script seed npoints k)],
      Inr [[1/4, 1/4, 1/4, 1/4, 1/4, 1/4, 3/4, 1/4, 1/4, 1/4],
           [3/4, 3/4, 3/4, 3/4, 3/4, 3/4, 0, 3/4, 3/4, 3/4]])"
  by (simp add: generate_lhs_def R_demo_def np_array_def float_of_demo_def)

lemma points_2: "map (\<lambda>i. str_int (int i)) [0..<2] = [''0'', ''1'']"
  by (simp add: upt_rec str_int_def str_nat.simps)

lemma Design_init_demo:
  "Design_init R_demo float_of_demo (p, t, 2760) 2 False None =
     ([Print ''self.system = '', Print (p @ t @ ''-2760''),
       RunR [''R'', ''--slave''] (lhs_script 450829120 2 10)],
      Inr (design_demo p t))"
  by (simp add: Design_init_def Let_def norm_range_table_def specs_keys specs_ranges
        str_int_2760 length_specs default_seed_def generate_lhs_demo points_2 design_demo_def
        scale_def scale_row_def active_ranges_def area_demo_def)

lemma demo_width_0:
  "np_true_divide (Finite (2 / 3.141592 * area_demo (3 / 4) ^ 4)) (Finite 0) = PosInf"
proof -
  have "(0::real) < 0.0002 powr 0.25" by simp
  moreover have "(0.0002::real) powr 0.25 \<le> (0.2 * 0.3) powr 0.25"
    by (rule powr_mono2) simp_all
  ultimately have "0 < area_demo (3 / 4)"
    unfolding area_demo_def by (simp add: add_pos_nonneg)
  then have "0 < 2 / 3.141592 * area_demo (3 / 4) ^ 4"
    by simp
  then show ?thesis by simp
qed

lemma demo_beam: "beam_energy (design_demo p t) = 2760"
  and demo_keys: "keys (design_demo p t) = active_keys"
  and demo_ranges: "range_d (design_demo p t) = active_ranges"
  and demo_projectiles: "projectiles (design_demo p t) = p"
  by (simp_all add: design_demo_def)

lemma write_points_demo:
  "write_points sf (design_demo p t) outdir f (zip (points (design_demo p t)) (array (design_demo p t))) =
    ([WriteModuleInputs
        \<lparr> arg_outdir = outdir, arg_design_point_id = ''0'',
          arg_projectile = p, arg_target = p, arg_sqrts = 2760,
          arg_inel_nucleon_cross_section = Float (Finite 6.4),
          arg_trento_normalization = Float (Finite 12),
          arg_trento_fluctuation_k = Float (Finite 0.975),
          arg_trento_nucleon_width = Float (Finite 0.675),
          arg_tau_R = Float (Finite 0.875), arg_alpha = Float (Finite (- 0.375)),
          arg_eta_over_s_at_kink = Float (Finite 0.07),
          arg_zeta_over_s_max = Float (Finite 0.225),
          arg_zeta_over_s_width_in_GeV = Float (Finite demo_width),
          arg_zeta_over_s_T_peak_in_GeV = Float (Finite 0.2),
          arg_zeta_over_s_lambda_asymm = Float (Finite (- 0.4)) \<rparr>,
      Write f ''0'',
      Write f ('','' @ sf 12), Write f ('','' @ sf 0.975), Write f ('','' @ sf 0.675),
      Write f ('','' @ sf 0.875), Write f ('','' @ sf (- 0.375)), Write f ('','' @ sf 0.07),
      Write f ('','' @ sf 0.225), Write f ('','' @ sf 0.2), Write f ('','' @ sf (- 0.4)),
      Write f ('','' @ p), Write f ('','' @ sf 6.4),
      Write f ('','' @ sf demo_width),
      Write f nl,
      WriteModuleInputs
        \<lparr> arg_outdir = outdir, arg_design_point_id = ''1'',
          arg_projectile = p, arg_target = p, arg_sqrts = 2760,
          arg_inel_nucleon_cross_section = Float (Finite 6.4),
          arg_trento_normalization = Float (Finite 16),
          arg_trento_fluctuation_k = Float (Finite 2.325),
          arg_trento_nucleon_width = Float (Finite 1.225),
          arg_tau_R = Float (Finite 1.625), arg_alpha = Float (Finite (- 0.125)),
          arg_eta_over_s_at_kink = Float (Finite 0.19),
          arg_zeta_over_s_max = Float (Finite 0),
          arg_zeta_over_s_width_in_GeV = Float PosInf,
          arg_zeta_over_s_T_peak_in_GeV = Float (Finite 0.4),
          arg_zeta_over_s_lambda_asymm = Float (Finite 0.4) \<rparr>,
      Write f ''1'',
      Write f ('','' @ sf 16), Write f ('','' @ sf 2.325), Write f ('','' @ sf 1.225),
      Write f ('','' @ sf 1.625), Write f ('','' @ sf (- 0.125)), Write f ('','' @ sf 0.19),
      Write f ('','' @ sf 0), Write f ('','' @ sf 0.4), Write f ('','' @ sf 0.4),
      Write f ('','' @ p), Write f ('','' @ sf 6.4),
      Write f '',inf'',
      Write f nl],
     Inr ())"
proof -
  have z: "zip (points (design_demo p t)) (array (design_demo p t)) =
     [(''0'', [12, 0.975, 0.675, 0.875, - 0.375, 0.07, 0.225, 0.2, area_demo (1 / 4), - 0.4]),
      (''1'', [16, 2.325, 1.225, 1.625, - 0.125, 0.19, 0, 0.4, area_demo (3 / 4), 0.4])]"
    by (simp add: design_demo_def)
  have w: "np_true_divide (Finite (2 / 3.141592 * area_demo (1 / 4) ^ 4)) (Finite 0.225) = Finite demo_width"
    by (simp add: demo_width_def)
  show ?thesis
    unfolding z write_points.simps write_point_explicit[OF demo_beam demo_keys] w demo_width_0
    by (simp add: demo_projectiles)
qed

lemma write_files_demo:
  "write_files sf (design_demo p t) dir =
    ([Mkdir (dir @ [''main'', p @ t @ ''-2760'']),
      Open (dir @ [design_file_name (design_demo p t)]),
      Write (dir @ [design_file_name (design_demo p t)]) ''idx''] @
     map (\<lambda>key. Write (dir @ [design_file_name (design_demo p t)]) ('','' @ key)) active_keys @
     [Write (dir @ [design_file_name (design_demo p t)]) nl] @
     fst (write_points sf (design_demo p t) (dir @ [''main'', p @ t @ ''-2760''])
            (dir @ [design_file_name (design_demo p t)])
            (zip (points (design_demo p t)) (array (design_demo p t)))) @
     [Close (dir @ [design_file_name (design_demo p t)]),
      Open (dir @ [range_file_name (design_demo p t)]),
      Write (dir @ [range_file_name (design_demo p t)]) (''param,min,max'' @ nl)] @
     map (\<lambda>i. Write (dir @ [range_file_name (design_demo p t)])
                 (active_keys ! i @ '','' @ sf (fst (active_ranges ! i)) @ '','' @
                  sf (snd (active_ranges ! i)) @ nl)) [0..<10] @
     [Close (dir @ [range_file_name (design_demo p t)])],
     Inr ())"
proof -
  have r: "write_ranges sf (design_demo p t) (dir @ [range_file_name (design_demo p t)])
             [0..<length (keys (design_demo p t))] =
           (map (\<lambda>i. Write (dir @ [range_file_name (design_demo p t)])
                 (active_keys ! i @ '','' @ sf (fst (active_ranges ! i)) @ '','' @
                  sf (snd (active_ranges ! i)) @ nl)) [0..<10], Inr ())"
    by (subst write_ranges_events) (simp_all add: demo_keys demo_ranges)
  have t: "type_d (design_demo p t) = ''main''" "system (design_demo p t) = p @ t @ ''-2760''"
    by (simp_all add: design_demo_def)
  show ?thesis
    unfolding write_files_def Let_def r t
    by (simp add: write_points_demo demo_keys)
qed

lemma design_and_write_demo:
  "design_and_write R_demo float_of_demo sf (p, t, 2760) 2 False None dir =
     ([Print ''self.system = '', Print (p @ t @ ''-2760''),
       RunR [''R'', ''--slave''] (lhs_script 450829120 2 10)] @
      fst (write_files sf (design_demo p t) dir), Inr ())"
  by (simp add: design_and_write_def Let_def Design_init_demo write_files_demo)

subsection \<open>Claims\<close>

text \<open>
  C5. Constructing a Design for a beam energy that is not in the table of norm ranges
  raises KeyError on that energy (after the two \<^verbatim>\<open>print\<close> calls and before anything else);
  when the construction succeeds, the range of the first parameter, \<^verbatim>\<open>norm\<close>, is the
  table's entry for the beam energy.
\<close>

theorem norm_range_lookup:
  "(norm_range_table e = None \<longrightarrow>
      Design_init R float_of (p, t, e) npoints validation seed =
        ([Print ''self.system = '', Print (p @ t @ ''-'' @ str_int e)],
         Inl (KeyError (IntKey e)))) \<and>
   (snd (Design_init R float_of (p, t, e) npoints validation seed) = Inr d \<longrightarrow>
      norm_range_table e = Some (hd (range_d d)) \<and> hd (keys d) = ''norm'')"
proof (intro conjI impI)
  assume "norm_range_table e = None"
  then show "Design_init R float_of (p, t, e) npoints validation seed =
        ([Print ''self.system = '', Print (p @ t @ ''-'' @ str_int e)],
         Inl (KeyError (IntKey e)))"
    by (simp add: Design_init_def Let_def)
next
  assume ok: "snd (Design_init R float_of (p, t, e) npoints validation seed) = Inr d"
  from Design_init_Inr(1)[OF ok] have e: "e = 2760" by simp
  from Design_init_Inr(2)[OF ok] have "range_d d = active_ranges" "keys d = active_keys"
    by auto
  then show "norm_range_table e = Some (hd (range_d d))" "hd (keys d) = ''norm''"
    by (simp_all add: e norm_range_table_def active_ranges_def active_keys_def)
qed

theorem norm_range_lookup_witness:
  "norm_range_table 5020 = None \<and>
   Design_init R_demo float_of_demo (''Pb'', ''Pb'', 5020) 2 False None =
     ([Print ''self.system = '', Print ''PbPb-5020''], Inl (KeyError (IntKey 5020))) \<and>
   snd (Design_init R_demo float_of_demo (''Pb'', ''Pb'', 2760) 2 False None) =
     Inr (design_demo ''Pb'' ''Pb'') \<and>
   norm_range_table 2760 = Some (hd (range_d (design_demo ''Pb'' ''Pb''))) \<and>
   hd (keys (design_demo ''Pb'' ''Pb'')) = ''norm''"
proof -
  have h1: "norm_range_table 5020 = None"
    by (simp add: norm_range_table_def)
  have h2: "snd (Design_init R_demo float_of_demo (''Pb'', ''Pb'', 2760) 2 False None) =
     Inr (design_demo ''Pb'' ''Pb'')"
    by (simp add: Design_init_demo)
  have s: "str_int 5020 = ''5020''"
    by (simp add: str_int_def str_nat.simps)
  show ?thesis
    using h1 h2
      norm_range_lookup[of 5020 R_demo float_of_demo "''Pb''" "''Pb''" 2 False None
        "design_demo ''Pb'' ''Pb''"]
      norm_range_lookup[of 2760 R_demo float_of_demo "''Pb''" "''Pb''" 2 False None
        "design_demo ''Pb'' ''Pb''"]
    by (simp add: s)
qed

text \<open>
  C8. With no seed given, the sampler is run with seed 450829120 for the main design and
  with seed 751783496 for the validation design; a seed given by the caller is used
  instead in both cases. The seed reaches R through the script on its standard input,
  and the scripts of the two default seeds differ.
\<close>

theorem default_seeds:
  "fst (Design_init R float_of (p, t, 2760) npoints validation seed) =
     [Print ''self.system = '', Print (p @ t @ ''-2760''),
      RunR [''R'', ''--slave'']
        (lhs_script
           (case seed of None \<Rightarrow> (if validation then 751783496 else 450829120) | Some s \<Rightarrow> s)
           npoints 10)] \<and>
   lhs_script 450829120 npoints 10 \<noteq> lhs_script 751783496 npoints 10"
proof
  show "fst (Design_init R float_of (p, t, 2760) npoints validation seed) =
     [Print ''self.system = '', Print (p @ t @ ''-2760''),
      RunR [''R'', ''--slave'']
        (lhs_script
           (case seed of None \<Rightarrow> (if validation then 751783496 else 450829120) | Some s \<Rightarrow> s)
           npoints 10)]"
    by (simp add: Design_init_def Let_def norm_range_table_def length_specs generate_lhs_def
          default_seed_def str_int_2760 split: r_result.splits sum.splits)
  show "lhs_script 450829120 npoints 10 \<noteq> lhs_script 751783496 npoints 10"
    by (simp add: lhs_script_def str_int_def str_nat.simps)
qed

text \<open>
  C10. In every call of the module-input writer made while a design is built and
  written, the \<^verbatim>\<open>target\<close> argument, like the \<^verbatim>\<open>projectile\<close> argument, is the first
  component of the system; \<open>write_files\<close> does not read the field \<open>target\<close> of the design.
\<close>

theorem module_writer_target_is_projectile:
  "(WriteModuleInputs m \<in>
      set (fst (design_and_write R float_of sf (p, t, e) npoints validation seed dir)) \<longrightarrow>
      arg_target m = p \<and> arg_projectile m = p) \<and>
   write_files sf (d\<lparr>target := x\<rparr>) dir = write_files sf d dir"
proof -
  have a: "WriteModuleInputs m \<in>
      set (fst (design_and_write R float_of sf (p, t, e) npoints validation seed dir)) \<longrightarrow>
      arg_target m = p \<and> arg_projectile m = p"
  proof
    assume m: "WriteModuleInputs m \<in>
      set (fst (design_and_write R float_of sf (p, t, e) npoints validation seed dir))"
    show "arg_target m = p \<and> arg_projectile m = p"
    proof (cases "snd (Design_init R float_of (p, t, e) npoints validation seed)")
      case (Inl err)
      with m show ?thesis
        using Design_init_no_module[of m R float_of "(p, t, e)" npoints validation seed]
        by (simp add: design_and_write_def Let_def)
    next
      case (Inr d')
      from Design_init_Inr(2)[OF Inr] have pr: "projectiles d' = p" by auto
      from m Inr have "WriteModuleInputs m \<in> set (fst (write_files sf d' dir))"
        using Design_init_no_module[of m R float_of "(p, t, e)" npoints validation seed]
        by (simp add: design_and_write_def Let_def)
      from write_files_target[OF this] pr show ?thesis by simp
    qed
  qed
  have b: "write_files sf (d\<lparr>target := x\<rparr>) dir = write_files sf d dir"
    by (simp add: write_files_def Let_def write_points_target_field write_ranges_target_field
          design_file_name_def range_file_name_def cong: sum.case_cong)
  from a b show ?thesis by (rule conjI)
qed

theorem module_writer_target_is_projectile_witness:
  "WriteModuleInputs
     \<lparr> arg_outdir = [''inputs'', ''main'', ''pPb-2760''], arg_design_point_id = ''0'',
       arg_projectile = ''p'', arg_target = ''p'', arg_sqrts = 2760,
       arg_inel_nucleon_cross_section = Float (Finite 6.4),
       arg_trento_normalization = Float (Finite 12),
       arg_trento_fluctuation_k = Float (Finite 0.975),
       arg_trento_nucleon_width = Float (Finite 0.675),
       arg_tau_R = Float (Finite 0.875), arg_alpha = Float (Finite (- 0.375)),
       arg_eta_over_s_at_kink = Float (Finite 0.07),
       arg_zeta_over_s_max = Float (Finite 0.225),
       arg_zeta_over_s_width_in_GeV = Float (Finite demo_width),
       arg_zeta_over_s_T_peak_in_GeV = Float (Finite 0.2),
       arg_zeta_over_s_lambda_asymm = Float (Finite (- 0.4)) \<rparr>
     \<in> set (fst (design_and_write R_demo float_of_demo str_float_demo (''p'', ''Pb'', 2760) 2
                    False None [''inputs''])) \<and>
   arg_target
     \<lparr> arg_outdir = [''inputs'', ''main'', ''pPb-2760''], arg_design_point_id = ''0'',
       arg_projectile = ''p'', arg_target = ''p'', arg_sqrts = 2760,
       arg_inel_nucleon_cross_section = Float (Finite 6.4),
       arg_trento_normalization = Float (Finite 12),
       arg_trento_fluctuation_k = Float (Finite 0.975),
       arg_trento_nucleon_width = Float (Finite 0.675),
       arg_tau_R = Float (Finite 0.875), arg_alpha = Float (Finite (- 0.375)),
       arg_eta_over_s_at_kink = Float (Finite 0.07),
       arg_zeta_over_s_max = Float (Finite 0.225),
       arg_zeta_over_s_width_in_GeV = Float (Finite demo_width),
       arg_zeta_over_s_T_peak_in_GeV = Float (Finite 0.2),
       arg_zeta_over_s_lambda_asymm = Float (Finite (- 0.4)) \<rparr> = ''p''"
proof -
  have h: "WriteModuleInputs
     \<lparr> arg_outdir = [''inputs'', ''main'', ''pPb-2760''], arg_design_point_id = ''0'',
       arg_projectile = ''p'', arg_target = ''p'', arg_sqrts = 2760,
       arg_inel_nucleon_cross_section = Float (Finite 6.4),
       arg_trento_normalization = Float (Finite 12),
       arg_trento_fluctuation_k = Float (Finite 0.975),
       arg_trento_nucleon_width = Float (Finite 0.675),
       arg_tau_R = Float (Finite 0.875), arg_alpha = Float (Finite (- 0.375)),
       arg_eta_over_s_at_kink = Float (Finite 0.07),
       arg_zeta_over_s_max = Float (Finite 0.225),
       arg_zeta_over_s_width_in_GeV = Float (Finite demo_width),
       arg_zeta_over_s_T_peak_in_GeV = Float (Finite 0.2),
       arg_zeta_over_s_lambda_asymm = Float (Finite (- 0.4)) \<rparr>
     \<in> set (fst (design_and_write R_demo float_of_demo str_float_demo (''p'', ''Pb'', 2760) 2
                    False None [''inputs'']))"
    unfolding design_and_write_demo write_files_demo write_points_demo
    by simp
  from h module_writer_target_is_projectile[THEN conjunct1, rule_format, OF h]
  show ?thesis by simp
qed

subsection \<open>Unknown beam energies\<close>

lemma design_and_write_unknown_energy:
  assumes "norm_range_table e = None"
  shows "design_and_write R fo sf (p, t, e) n v s dir =
     ([Print ''self.system = '', Print (p @ t @ ''-'' @ str_int e)], Inl (KeyError (IntKey e)))"
proof -
  from assms have "Design_init R fo (p, t, e) n v s =
     ([Print ''self.system = '', Print (p @ t @ ''-'' @ str_int e)], Inl (KeyError (IntKey e)))"
    by (simp add: Design_init_def Let_def)
  then show ?thesis
    by (simp add: design_and_write_def Let_def)
qed

declare main_loop.simps(2) [simp del]

lemma main_loop_Cons_ok:
  assumes "snd (design_and_write R fo sf (fst sv) n (snd sv) None dir) = Inr ()"
  shows "main_loop R fo sf n dir (sv # svs) =
     (fst (design_and_write R fo sf (fst sv) n (snd sv) None dir) @
      fst (main_loop R fo sf n dir svs), snd (main_loop R fo sf n dir svs))"
  using assms
  by (cases "design_and_write R fo sf (fst sv) n (snd sv) None dir") (simp add: main_loop.simps(2))

lemma main_loop_Cons_error:
  assumes "snd (design_and_write R fo sf (fst sv) n (snd sv) None dir) = Inl err"
  shows "main_loop R fo sf n dir (sv # svs) =
     (fst (design_and_write R fo sf (fst sv) n (snd sv) None dir), Inl err)"
  using assms
  by (cases "design_and_write R fo sf (fst sv) n (snd sv) None dir") (simp add: main_loop.simps(2))

lemma main_loop_append_error:
  assumes "snd (main_loop R fo sf n dir pre) = Inr ()"
    and "snd (design_and_write R fo sf (fst sv) n (snd sv) None dir) = Inl err"
  shows "main_loop R fo sf n dir (pre @ sv # post) =
     (fst (main_loop R fo sf n dir pre) @
      fst (design_and_write R fo sf (fst sv) n (snd sv) None dir), Inl err)"
  using assms(1)
proof (induction pre)
  case Nil
  then show ?case
    by (simp add: main_loop_Cons_error[OF assms(2)])
next
  case (Cons x pre)
  show ?case
  proof (cases "snd (design_and_write R fo sf (fst x) n (snd x) None dir)")
    case (Inl e)
    with Cons.prems show ?thesis
      by (simp add: main_loop_Cons_error[OF Inl])
  next
    case (Inr u)
    then have ok: "snd (design_and_write R fo sf (fst x) n (snd x) None dir) = Inr ()"
      by simp
    from Cons.prems have "snd (main_loop R fo sf n dir pre) = Inr ()"
      by (simp add: main_loop_Cons_ok[OF ok])
    from Cons.IH[OF this] show ?thesis
      by (simp add: main_loop_Cons_ok[OF ok])
  qed
qed

lemma Design_init_demo_validation:
  "Design_init R_demo float_of_demo (p, t, 2760) 2 True None =
     ([Print ''self.system = '', Print (p @ t @ ''-2760''),
       RunR [''R'', ''--slave''] (lhs_script 751783496 2 10)],
      Inr ((design_demo p t)\<lparr>type_d := ''validation''\<rparr>))"
  by (simp add: Design_init_def Let_def norm_range_table_def specs_keys specs_ranges
        str_int_2760 length_specs default_seed_def generate_lhs_demo points_2 design_demo_def
        scale_def scale_row_def active_ranges_def area_demo_def)

lemma demo_range_file:
  "range_file_name (design_demo ''Pb'' ''Pb'') = ''design_ranges_main_PbPb-2760.dat''"
  by (simp add: range_file_name_def design_demo_def)

lemma main_demo_two_systems:
  "main R_demo float_of_demo sf 2 [(''Pb'', ''Pb'', 2760), (''Au'', ''Au'', 130)] dir =
     (fst (design_and_write R_demo float_of_demo sf (''Pb'', ''Pb'', 2760) 2 False None dir) @
      fst (design_and_write R_demo float_of_demo sf (''Pb'', ''Pb'', 2760) 2 True None dir) @
      [Print ''self.system = '', Print ''AuAu-130''],
      Inl (KeyError (IntKey 130)))"
proof -
  have s: "str_int 130 = ''130''"
    by (simp add: str_int_def str_nat.simps)
  have n: "norm_range_table 130 = None"
    by (simp add: norm_range_table_def)
  have ok1: "snd (design_and_write R_demo float_of_demo sf
               (fst ((''Pb'', ''Pb'', 2760), False)) 2 (snd ((''Pb'', ''Pb'', 2760 :: int), False))
               None dir) = Inr ()"
    by (simp add: design_and_write_result Design_init_demo)
  have ok2: "snd (design_and_write R_demo float_of_demo sf
               (fst ((''Pb'', ''Pb'', 2760), True)) 2 (snd ((''Pb'', ''Pb'', 2760 :: int), True))
               None dir) = Inr ()"
    by (simp add: design_and_write_result Design_init_demo_validation)
  have pre: "main_loop R_demo float_of_demo sf 2 dir
               [((''Pb'', ''Pb'', 2760), False), ((''Pb'', ''Pb'', 2760), True)] =
     (fst (design_and_write R_demo float_of_demo sf (''Pb'', ''Pb'', 2760) 2 False None dir) @
      fst (design_and_write R_demo float_of_demo sf (''Pb'', ''Pb'', 2760) 2 True None dir),
      Inr ())"
    by (simp add: main_loop_Cons_ok[OF ok1] main_loop_Cons_ok[OF ok2])
  have err: "snd (design_and_write R_demo float_of_demo sf
               (fst ((''Au'', ''Au'', 130), False)) 2 (snd ((''Au'', ''Au'', 130 :: int), False))
               None dir) = Inl (KeyError (IntKey 130))"
    by (simp add: design_and_write_unknown_energy[OF n])
  have "main_loop R_demo float_of_demo sf 2 dir
          ([((''Pb'', ''Pb'', 2760), False), ((''Pb'', ''Pb'', 2760), True)] @
           ((''Au'', ''Au'', 130), False) # [((''Au'', ''Au'', 130), True)]) =
     (fst (design_and_write R_demo float_of_demo sf (''Pb'', ''Pb'', 2760) 2 False None dir) @
      fst (design_and_write R_demo float_of_demo sf (''Pb'', ''Pb'', 2760) 2 True None dir) @
      [Print ''self.system = '', Print ''AuAu-130''],
      Inl (KeyError (IntKey 130)))"
    by (subst main_loop_append_error[OF _ err])
       (simp_all add: pre design_and_write_unknown_energy[OF n] s)
  then show ?thesis
    by (simp add: main_def)
qed

text \<open>
  C2 (as the code has it). Every beam energy missing from the table of cross sections is
  missing from the table of norm ranges, and a beam energy missing from the latter makes
  the construction of the design raise KeyError right after its two \<^verbatim>\<open>print\<close> calls.
  Building and writing one design ends in a KeyError in this way only: for that design R
  has not been run, no directory made and no file opened. For a constructed design the
  cross-section lookup of \<open>write_files\<close> finds 6.4 and \<open>write_files\<close> raises nothing. In
  the loop of \<^verbatim>\<open>main\<close>, when the passes before a pair with such an energy complete, the
  KeyError is raised after them: their events stay and the failing pair adds its two
  \<^verbatim>\<open>print\<close> calls only.
\<close>

theorem unknown_energy_raised_before_sampling:
  "(cross_section_table e = None \<longrightarrow> norm_range_table e = None) \<and>
   (norm_range_table e = None \<longrightarrow>
      design_and_write R float_of sf (p, t, e) npoints validation seed dir =
        ([Print ''self.system = '', Print (p @ t @ ''-'' @ str_int e)],
         Inl (KeyError (IntKey e)))) \<and>
   (snd (design_and_write R float_of sf (p, t, e) npoints validation seed dir) =
      Inl (KeyError k) \<longrightarrow>
      k = IntKey e \<and> norm_range_table e = None \<and>
      fst (design_and_write R float_of sf (p, t, e) npoints validation seed dir) =
        [Print ''self.system = '', Print (p @ t @ ''-'' @ str_int e)]) \<and>
   (snd (Design_init R float_of sys npoints validation seed) = Inr d \<longrightarrow>
      cross_section_table (beam_energy d) = Some 6.4 \<and> snd (write_files sf d dir) = Inr ()) \<and>
   (snd (main_loop R float_of sf n_design_pts dir pre) = Inr () \<and> norm_range_table e = None \<longrightarrow>
      main_loop R float_of sf n_design_pts dir (pre @ ((p, t, e), v) # post) =
        (fst (main_loop R float_of sf n_design_pts dir pre) @
         [Print ''self.system = '', Print (p @ t @ ''-'' @ str_int e)],
         Inl (KeyError (IntKey e))))"
proof -
  have a: "cross_section_table e = None \<longrightarrow> norm_range_table e = None"
    by (auto simp: cross_section_table_def norm_range_table_def split: if_splits)
  have b: "norm_range_table e = None \<longrightarrow>
      design_and_write R float_of sf (p, t, e) npoints validation seed dir =
        ([Print ''self.system = '', Print (p @ t @ ''-'' @ str_int e)],
         Inl (KeyError (IntKey e)))"
    by (simp add: design_and_write_unknown_energy)
  have c: "snd (design_and_write R float_of sf (p, t, e) npoints validation seed dir) =
      Inl (KeyError k) \<longrightarrow>
      k = IntKey e \<and> norm_range_table e = None \<and>
      fst (design_and_write R float_of sf (p, t, e) npoints validation seed dir) =
        [Print ''self.system = '', Print (p @ t @ ''-'' @ str_int e)]"
  proof
    assume r: "snd (design_and_write R float_of sf (p, t, e) npoints validation seed dir) =
      Inl (KeyError k)"
    then have i: "snd (Design_init R float_of (p, t, e) npoints validation seed) = Inl (KeyError k)"
      by (simp add: design_and_write_result split: sum.splits)
    from Design_init_KeyError[OF i] i
    show "k = IntKey e \<and> norm_range_table e = None \<and>
      fst (design_and_write R float_of sf (p, t, e) npoints validation seed dir) =
        [Print ''self.system = '', Print (p @ t @ ''-'' @ str_int e)]"
      by (simp add: design_and_write_def Let_def)
  qed
  have d: "snd (Design_init R float_of sys npoints validation seed) = Inr d \<longrightarrow>
      cross_section_table (beam_energy d) = Some 6.4 \<and> snd (write_files sf d dir) = Inr ()"
  proof
    assume ok: "snd (Design_init R float_of sys npoints validation seed) = Inr d"
    from Design_init_Inr(2)[OF ok] have "beam_energy d = 2760" by auto
    then have "cross_section_table (beam_energy d) = Some 6.4"
      by (simp add: cross_section_table_def)
    with write_files_ok[OF ok]
    show "cross_section_table (beam_energy d) = Some 6.4 \<and> snd (write_files sf d dir) = Inr ()"
      by simp
  qed
  have m: "snd (main_loop R float_of sf n_design_pts dir pre) = Inr () \<and>
      norm_range_table e = None \<longrightarrow>
      main_loop R float_of sf n_design_pts dir (pre @ ((p, t, e), v) # post) =
        (fst (main_loop R float_of sf n_design_pts dir pre) @
         [Print ''self.system = '', Print (p @ t @ ''-'' @ str_int e)],
         Inl (KeyError (IntKey e)))"
  proof
    assume h: "snd (main_loop R float_of sf n_design_pts dir pre) = Inr () \<and>
      norm_range_table e = None"
    then have pre: "snd (main_loop R float_of sf n_design_pts dir pre) = Inr ()"
      and n: "norm_range_table e = None"
      by simp_all
    have err: "snd (design_and_write R float_of sf (fst ((p, t, e), v)) n_design_pts
                 (snd ((p, t, e), v)) None dir) = Inl (KeyError (IntKey e))"
      by (simp add: design_and_write_unknown_energy[OF n])
    show "main_loop R float_of sf n_design_pts dir (pre @ ((p, t, e), v) # post) =
        (fst (main_loop R float_of sf n_design_pts dir pre) @
         [Print ''self.system = '', Print (p @ t @ ''-'' @ str_int e)],
         Inl (KeyError (IntKey e)))"
      by (simp add: main_loop_append_error[OF pre err] design_and_write_unknown_energy[OF n])
  qed
  from a b c d m show ?thesis by blast
qed

theorem unknown_energy_raised_before_sampling_witness:
  "cross_section_table 130 = None \<and> norm_range_table 130 = None \<and>
   design_and_write R_demo float_of_demo str_float_demo (''Au'', ''Au'', 130) 2 False None
       [''inputs''] =
     ([Print ''self.system = '', Print ''AuAu-130''], Inl (KeyError (IntKey 130))) \<and>
   snd (design_and_write R_demo float_of_demo str_float_demo (''Au'', ''Au'', 130) 2 False None
       [''inputs'']) = Inl (KeyError (IntKey 130)) \<and>
   fst (design_and_write R_demo float_of_demo str_float_demo (''Au'', ''Au'', 130) 2 False None
       [''inputs'']) = [Print ''self.system = '', Print ''AuAu-130''] \<and>
   snd (Design_init R_demo float_of_demo (''Pb'', ''Pb'', 2760) 2 False None) =
     Inr (design_demo ''Pb'' ''Pb'') \<and>
   cross_section_table (beam_energy (design_demo ''Pb'' ''Pb'')) = Some 6.4 \<and>
   snd (write_files str_float_demo (design_demo ''Pb'' ''Pb'') [''inputs'']) = Inr () \<and>
   snd (main_loop R_demo float_of_demo str_float_demo 2 [''inputs'']
          [((''Pb'', ''Pb'', 2760), False), ((''Pb'', ''Pb'', 2760), True)]) = Inr () \<and>
   main_loop R_demo float_of_demo str_float_demo 2 [''inputs'']
     ([((''Pb'', ''Pb'', 2760), False), ((''Pb'', ''Pb'', 2760), True)] @
      ((''Au'', ''Au'', 130), False) # [((''Au'', ''Au'', 130), True)]) =
     (fst (main_loop R_demo float_of_demo str_float_demo 2 [''inputs'']
             [((''Pb'', ''Pb'', 2760), False), ((''Pb'', ''Pb'', 2760), True)]) @
      [Print ''self.system = '', Print ''AuAu-130''],
      Inl (KeyError (IntKey 130)))"
proof -
  have h1: "cross_section_table 130 = None"
    by (simp add: cross_section_table_def)
  have s: "str_int 130 = ''130''"
    by (simp add: str_int_def str_nat.simps)
  have h2: "snd (Design_init R_demo float_of_demo (''Pb'', ''Pb'', 2760) 2 False None) =
     Inr (design_demo ''Pb'' ''Pb'')"
    by (simp add: Design_init_demo)
  have ok1: "snd (design_and_write R_demo float_of_demo str_float_demo
               (fst ((''Pb'', ''Pb'', 2760), False)) 2 (snd ((''Pb'', ''Pb'', 2760 :: int), False))
               None [''inputs'']) = Inr ()"
    by (simp add: design_and_write_result Design_init_demo)
  have ok2: "snd (design_and_write R_demo float_of_demo str_float_demo
               (fst ((''Pb'', ''Pb'', 2760), True)) 2 (snd ((''Pb'', ''Pb'', 2760 :: int), True))
               None [''inputs'']) = Inr ()"
    by (simp add: design_and_write_result Design_init_demo_validation)
  have h3: "snd (main_loop R_demo float_of_demo str_float_demo 2 [''inputs'']
          [((''Pb'', ''Pb'', 2760), False), ((''Pb'', ''Pb'', 2760), True)]) = Inr ()"
    by (simp add: main_loop_Cons_ok[OF ok1] main_loop_Cons_ok[OF ok2])
  note t = unknown_energy_raised_before_sampling[where e = 130 and R = R_demo
      and float_of = float_of_demo and sf = str_float_demo and p = "''Au''" and t = "''Au''"
      and npoints = 2 and validation = False and seed = None and dir = "[''inputs'']"
      and k = "IntKey 130" and sys = "(''Pb'', ''Pb'', 2760)" and d = "design_demo ''Pb'' ''Pb''"
      and n_design_pts = 2
      and pre = "[((''Pb'', ''Pb'', 2760), False), ((''Pb'', ''Pb'', 2760), True)]"
      and v = False and post = "[((''Au'', ''Au'', 130), True)]"]
  from t h1 have n: "norm_range_table 130 = None"
    by blast
  from t n have r: "design_and_write R_demo float_of_demo str_float_demo (''Au'', ''Au'', 130) 2
       False None [''inputs''] =
     ([Print ''self.system = '', Print ''AuAu-130''], Inl (KeyError (IntKey 130)))"
    by (simp add: s)
  from t h2 have c: "cross_section_table (beam_energy (design_demo ''Pb'' ''Pb'')) = Some 6.4 \<and>
      snd (write_files str_float_demo (design_demo ''Pb'' ''Pb'') [''inputs'']) = Inr ()"
    by blast
  from t h3 n have m: "main_loop R_demo float_of_demo str_float_demo 2 [''inputs'']
     ([((''Pb'', ''Pb'', 2760), False), ((''Pb'', ''Pb'', 2760), True)] @
      ((''Au'', ''Au'', 130), False) # [((''Au'', ''Au'', 130), True)]) =
     (fst (main_loop R_demo float_of_demo str_float_demo 2 [''inputs'']
             [((''Pb'', ''Pb'', 2760), False), ((''Pb'', ''Pb'', 2760), True)]) @
      [Print ''self.system = '', Print ''AuAu-130''],
      Inl (KeyError (IntKey 130)))"
    by (simp add: s)
  from h1 n r h2 c h3 m show ?thesis
    by simp
qed

text \<open>
  Two runs that end in a KeyError on the beam energy after sampling. In \<^verbatim>\<open>main\<close> with
  the systems Pb-Pb at 2760 and Au-Au at 130, the error of the second system is raised
  after R has been run for the first and its files have been written and closed. And
  \<open>write_files\<close> on a design whose \<^verbatim>\<open>beam_energy\<close> attribute has been set to 130 after its
  construction (and so after sampling) raises at the cross-section lookup of the first
  point, with the design-point file open and its header written.
\<close>

theorem configuration_error_after_sampling:
  "snd (main R_demo float_of_demo str_float_demo 2
          [(''Pb'', ''Pb'', 2760), (''Au'', ''Au'', 130)] [''inputs'']) =
     Inl (KeyError (IntKey 130)) \<and>
   RunR [''R'', ''--slave''] (lhs_script 450829120 2 10)
     \<in> set (fst (main R_demo float_of_demo str_float_demo 2
                    [(''Pb'', ''Pb'', 2760), (''Au'', ''Au'', 130)] [''inputs''])) \<and>
   Close [''inputs'', ''design_ranges_main_PbPb-2760.dat'']
     \<in> set (fst (main R_demo float_of_demo str_float_demo 2
                    [(''Pb'', ''Pb'', 2760), (''Au'', ''Au'', 130)] [''inputs''])) \<and>
   write_files str_float_demo ((design_demo ''Pb'' ''Pb'')\<lparr>beam_energy := 130\<rparr>) [''inputs''] =
     ([Mkdir [''inputs'', ''main'', ''PbPb-2760''],
       Open [''inputs'', ''design_points_main_PbPb-2760.dat''],
       Write [''inputs'', ''design_points_main_PbPb-2760.dat''] ''idx'',
       Write [''inputs'', ''design_points_main_PbPb-2760.dat''] '',norm'',
       Write [''inputs'', ''design_points_main_PbPb-2760.dat''] '',fluct_k'',
       Write [''inputs'', ''design_points_main_PbPb-2760.dat''] '',nucleon_width'',
       Write [''inputs'', ''design_points_main_PbPb-2760.dat''] '',tau_R'',
       Write [''inputs'', ''design_points_main_PbPb-2760.dat''] '',alpha'',
       Write [''inputs'', ''design_points_main_PbPb-2760.dat''] '',eta_over_s_at_kink'',
       Write [''inputs'', ''design_points_main_PbPb-2760.dat''] '',zeta_over_s_max'',
       Write [''inputs'', ''design_points_main_PbPb-2760.dat''] '',zeta_over_s_T_peak_in_GeV'',
       Write [''inputs'', ''design_points_main_PbPb-2760.dat''] '',zeta_over_s_area_fourth'',
       Write [''inputs'', ''design_points_main_PbPb-2760.dat''] '',zeta_over_s_lambda_asymm'',
       Write [''inputs'', ''design_points_main_PbPb-2760.dat''] nl],
      Inl (KeyError (IntKey 130)))"
proof -
  have a: "snd (main R_demo float_of_demo str_float_demo 2
          [(''Pb'', ''Pb'', 2760), (''Au'', ''Au'', 130)] [''inputs'']) =
     Inl (KeyError (IntKey 130))"
    by (simp add: main_demo_two_systems)
  have b: "RunR [''R'', ''--slave''] (lhs_script 450829120 2 10)
     \<in> set (fst (main R_demo float_of_demo str_float_demo 2
                    [(''Pb'', ''Pb'', 2760), (''Au'', ''Au'', 130)] [''inputs'']))"
    by (simp add: main_demo_two_systems design_and_write_demo)
  have c: "Close [''inputs'', ''design_ranges_main_PbPb-2760.dat'']
     \<in> set (fst (main R_demo float_of_demo str_float_demo 2
                    [(''Pb'', ''Pb'', 2760), (''Au'', ''Au'', 130)] [''inputs'']))"
    by (simp add: main_demo_two_systems design_and_write_demo write_files_demo demo_range_file)
  have k: "point_kwargs ((design_demo ''Pb'' ''Pb'')\<lparr>beam_energy := 130\<rparr>) row =
      Inl (KeyError (IntKey 130))" for row
    by (simp add: point_kwargs_def cross_section_table_def)
  have d: "write_files str_float_demo ((design_demo ''Pb'' ''Pb'')\<lparr>beam_energy := 130\<rparr>)
      [''inputs''] =
     ([Mkdir [''inputs'', ''main'', ''PbPb-2760''],
       Open [''inputs'', ''design_points_main_PbPb-2760.dat''],
       Write [''inputs'', ''design_points_main_PbPb-2760.dat''] ''idx'',
       Write [''inputs'', ''design_points_main_PbPb-2760.dat''] '',norm'',
       Write [''inputs'', ''design_points_main_PbPb-2760.dat''] '',fluct_k'',
       Write [''inputs'', ''design_points_main_PbPb-2760.dat''] '',nucleon_width'',
       Write [''inputs'', ''design_points_main_PbPb-2760.dat''] '',tau_R'',
       Write [''inputs'', ''design_points_main_PbPb-2760.dat''] '',alpha'',
       Write [''inputs'', ''design_points_main_PbPb-2760.dat''] '',eta_over_s_at_kink'',
       Write [''inputs'', ''design_points_main_PbPb-2760.dat''] '',zeta_over_s_max'',
       Write [''inputs'', ''design_points_main_PbPb-2760.dat''] '',zeta_over_s_T_peak_in_GeV'',
       Write [''inputs'', ''design_points_main_PbPb-2760.dat''] '',zeta_over_s_area_fourth'',
       Write [''inputs'', ''design_points_main_PbPb-2760.dat''] '',zeta_over_s_lambda_asymm'',
       Write [''inputs'', ''design_points_main_PbPb-2760.dat''] nl],
      Inl (KeyError (IntKey 130)))"
  proof -
    have wp: "write_point str_float_demo ((design_demo ''Pb'' ''Pb'')\<lparr>beam_energy := 130\<rparr>)
        outdir f pr = ([], Inl (KeyError (IntKey 130)))" for outdir f pr
      by (simp add: write_point_def k)
    have z: "zip (points (design_demo ''Pb'' ''Pb'')) (array (design_demo ''Pb'' ''Pb'')) \<noteq> []"
      by (simp add: design_demo_def)
    have wps: "write_points str_float_demo ((design_demo ''Pb'' ''Pb'')\<lparr>beam_energy := 130\<rparr>)
        outdir f (zip (points (design_demo ''Pb'' ''Pb'')) (array (design_demo ''Pb'' ''Pb''))) =
        ([], Inl (KeyError (IntKey 130)))" for outdir f
      using z
      by (cases "zip (points (design_demo ''Pb'' ''Pb'')) (array (design_demo ''Pb'' ''Pb''))")
         (simp_all add: wp)
    have names: "type_d (design_demo ''Pb'' ''Pb'') = ''main''"
      "system (design_demo ''Pb'' ''Pb'') = ''PbPb-2760''"
      by (simp_all add: design_demo_def)
    show ?thesis
      by (simp add: write_files_def Let_def wps names demo_keys design_file_name_def
            active_keys_def)
  qed
  from a b c d show ?thesis by blast
qed

subsection \<open>The sample generator's errors\<close>

lemma those_map_total:
  "those (map f xs) =
     (if list_all (\<lambda>x. f x \<noteq> None) xs then Some (map (\<lambda>x. the (f x)) xs) else None)"
  by (induction xs) (auto split: option.splits)

lemma np_array_eq:
  "np_array float_of rows =
     (if list_all (\<lambda>r. length r = length (hd rows)) rows \<and>
         list_all (list_all (\<lambda>tok. float_of tok \<noteq> None)) rows
      then Inr (map (map (\<lambda>tok. the (float_of tok))) rows)
      else Inl ValueError)"
proof -
  have "those (map (\<lambda>r. those (map float_of r)) rows) =
      (if list_all (list_all (\<lambda>tok. float_of tok \<noteq> None)) rows
       then Some (map (map (\<lambda>tok. the (float_of tok))) rows) else None)"
    by (induction rows) (auto simp: those_map_total split: option.splits)
  then show ?thesis
    by (simp add: np_array_def)
qed

text \<open>
  C6 (as the code has it). \<open>generate_lhs\<close> checks neither \<open>npoints\<close> nor \<open>ndim\<close>:
  whatever their values, it calls \<^verbatim>\<open>subprocess.run\<close> once, on the script that contains
  them, and its result depends on them only through what becomes of that call. It raises
  in three cases and no other: R cannot be started (OSError); R exits with a status
  other than 0 (CalledProcessError with the command and the exit status); R exits with
  status 0 and its output is not a rectangular table of numbers (ValueError).
\<close>

theorem generate_lhs_errors_come_from_R:
  "fst (generate_lhs R float_of npoints k seed) =
     [RunR [''R'', ''--slave''] (lhs_script seed npoints k)] \<and>
   snd (generate_lhs R float_of npoints k seed) =
     (case R (lhs_script seed npoints k) of
        NotStarted \<Rightarrow> Inl OSError
      | Exited rc out \<Rightarrow>
          if rc \<noteq> 0 then Inl (CalledProcessError [''R'', ''--slave''] rc)
          else if list_all (\<lambda>r. length r = length (hd out)) out \<and>
                  list_all (list_all (\<lambda>tok. float_of tok \<noteq> None)) out
               then Inr (map (map (\<lambda>tok. the (float_of tok))) out)
               else Inl ValueError) \<and>
   (R (lhs_script seed npoints k) = R (lhs_script seed' npoints' k') \<longrightarrow>
      snd (generate_lhs R float_of npoints k seed) =
      snd (generate_lhs R float_of npoints' k' seed'))"
proof -
  have a: "fst (generate_lhs R float_of npoints k seed) =
     [RunR [''R'', ''--slave''] (lhs_script seed npoints k)]"
    by (simp add: generate_lhs_def Let_def split: r_result.splits)
  have b: "snd (generate_lhs R float_of n j s) =
     (case R (lhs_script s n j) of
        NotStarted \<Rightarrow> Inl OSError
      | Exited rc out \<Rightarrow>
          if rc \<noteq> 0 then Inl (CalledProcessError [''R'', ''--slave''] rc)
          else if list_all (\<lambda>r. length r = length (hd out)) out \<and>
                  list_all (list_all (\<lambda>tok. float_of tok \<noteq> None)) out
               then Inr (map (map (\<lambda>tok. the (float_of tok))) out)
               else Inl ValueError)" for n j s
    by (simp add: generate_lhs_def Let_def np_array_eq split: r_result.splits)
  have c: "R (lhs_script seed npoints k) = R (lhs_script seed' npoints' k') \<longrightarrow>
      snd (generate_lhs R float_of npoints k seed) =
      snd (generate_lhs R float_of npoints' k' seed')"
    by (simp add: b)
  from a b[of npoints k seed] c show ?thesis by blast
qed

theorem generate_lhs_errors_come_from_R_witness:
  "R_rejects (lhs_script 450829120 0 10) = R_rejects (lhs_script 450829120 (- 3) 0) \<and>
   snd (generate_lhs R_rejects float_of_demo 0 10 450829120) =
     snd (generate_lhs R_rejects float_of_demo (- 3) 0 450829120) \<and>
   snd (generate_lhs R_rejects float_of_demo 0 10 450829120) =
     Inl (CalledProcessError [''R'', ''--slave''] 1) \<and>
   snd (generate_lhs R_missing float_of_demo 0 10 450829120) = Inl OSError"
proof -
  have h: "R_rejects (lhs_script 450829120 0 10) = R_rejects (lhs_script 450829120 (- 3) 0)"
    by (simp add: R_rejects_def)
  note g = generate_lhs_errors_come_from_R[of R_rejects float_of_demo 0 10 450829120
      450829120 "- 3" 0]
  from g h have a: "snd (generate_lhs R_rejects float_of_demo 0 10 450829120) =
     snd (generate_lhs R_rejects float_of_demo (- 3) 0 450829120)"
    by blast
  from g have b: "snd (generate_lhs R_rejects float_of_demo 0 10 450829120) =
     Inl (CalledProcessError [''R'', ''--slave''] 1)"
    by (simp add: R_rejects_def)
  from generate_lhs_errors_come_from_R[of R_missing float_of_demo 0 10 450829120
      450829120 0 10]
  have c: "snd (generate_lhs R_missing float_of_demo 0 10 450829120) = Inl OSError"
    by (simp add: R_missing_def)
  from h a b c show ?thesis by blast
qed

text \<open>
  When R rejects the arguments and exits with status 1, the error raised for
  \<open>npoints = 0\<close> and the one for \<open>npoints = -3\<close>, \<open>ndim = 0\<close> are the same value, which
  holds the command and the status only.
\<close>

theorem generate_lhs_error_without_values:
  "snd (generate_lhs R_rejects float_of_demo 0 10 450829120) =
     Inl (CalledProcessError [''R'', ''--slave''] 1) \<and>
   snd (generate_lhs R_rejects float_of_demo (- 3) 0 450829120) =
     Inl (CalledProcessError [''R'', ''--slave''] 1)"
  by (simp add: generate_lhs_def R_rejects_def Let_def)

subsection \<open>The affine rescaling\<close>

lemma scale_rows_nth:
  assumes "scale_rows lhsmin mx lhs = Inr arr"
  shows "length arr = length lhs \<and> (\<forall>i<length lhs. scale_row lhsmin mx (lhs ! i) = Inr (arr ! i))"
  using assms
proof (induction lhs arbitrary: arr)
  case Nil
  then show ?case by simp
next
  case (Cons u us)
  from Cons.prems obtain r rs where
    r: "scale_row lhsmin mx u = Inr r" and rs: "scale_rows lhsmin mx us = Inr rs"
    and arr: "arr = r # rs"
    by (auto simp: bind_err_Inr_iff)
  from Cons.IH[OF rs] r arr show ?case
    by (auto simp: nth_Cons split: nat.splits)
qed

lemma scale_row_nth:
  assumes "scale_row lhsmin mx u = Inr r" and "length lhsmin = length mx" and "j < length mx"
    and "length mx \<noteq> 1"
  shows "(length u = length mx \<longrightarrow> r ! j = lhsmin ! j + (mx ! j - lhsmin ! j) * u ! j) \<and>
         (length u \<noteq> length mx \<longrightarrow> length u = 1 \<and>
            r ! j = lhsmin ! j + (mx ! j - lhsmin ! j) * u ! 0)"
proof -
  have "hd u = u ! 0" if "length u = 1"
    using that by (cases u) simp_all
  with assms show ?thesis
    by (auto simp: scale_row_def split: if_splits)
qed

lemma affine_bounds:
  fixes lo hi u :: real
  assumes "lo \<le> hi" and "0 \<le> u" and "u < 1"
  shows "lo \<le> lo + (hi - lo) * u \<and> lo + (hi - lo) * u \<le> hi"
proof
  from assms show "lo \<le> lo + (hi - lo) * u" by simp
  from assms have "(hi - lo) * u \<le> (hi - lo) * 1"
    by (intro mult_left_mono) simp_all
  then show "lo + (hi - lo) * u \<le> hi" by simp
qed

lemma active_ranges_ordered:
  assumes "j < 10"
  shows "fst (active_ranges ! j) \<le> snd (active_ranges ! j)"
proof -
  have p: "(0.0002::real) powr 0.25 \<le> (0.2 * 0.3) powr 0.25"
    by (rule powr_mono2) simp_all
  have "list_all (\<lambda>r. fst r \<le> snd r) active_ranges"
    using p by (simp add: active_ranges_def)
  then show ?thesis
    using assms by (simp add: list_all_length)
qed

text \<open>
  C4. In a constructed design every entry of the array is
  \<open>min + (max - min) * u\<close>, with \<open>u\<close> the entry of the unit sample in the same row and
  column (or the single entry of the row, when numpy broadcasts a sample of one column),
  and with \<open>min\<close> and \<open>max\<close> the bounds of the column's range: no sampling floor other than
  \<open>min\<close> is in force. When the entries of the sample's row lie in [0, 1), the entry of
  the array lies between \<open>min\<close> and \<open>max\<close>.
\<close>

theorem affine_rescale_bounds:
  assumes "snd (Design_init R float_of sys npoints validation seed) = Inr d"
    and "snd (generate_lhs R float_of npoints (int (ndim d)) (default_seed validation seed)) = Inr lhs"
    and "i < length lhs" and "j < ndim d"
  shows "length (array d) = length lhs \<and>
         min_d d = map fst (range_d d) \<and> max_d d = map snd (range_d d) \<and>
         (length (lhs ! i) = ndim d \<longrightarrow>
            array d ! i ! j = min_d d ! j + (max_d d ! j - min_d d ! j) * lhs ! i ! j) \<and>
         (length (lhs ! i) \<noteq> ndim d \<longrightarrow>
            array d ! i ! j = min_d d ! j + (max_d d ! j - min_d d ! j) * lhs ! i ! 0) \<and>
         ((\<forall>u\<in>set (lhs ! i). 0 \<le> u \<and> u < 1) \<longrightarrow>
            min_d d ! j \<le> array d ! i ! j \<and> array d ! i ! j \<le> max_d d ! j)"
proof -
  from Design_init_Inr(2)[OF assms(1)] obtain lhs' arr where
    g: "snd (generate_lhs R float_of npoints 10 (default_seed validation seed)) = Inr lhs'"
    and s: "scale (map fst active_ranges) (map snd active_ranges) lhs' = Inr arr"
    and n: "ndim d = 10" and a: "array d = arr"
    and mn: "min_d d = map fst active_ranges" and mx: "max_d d = map snd active_ranges"
    and rg: "range_d d = active_ranges"
    by auto
  from assms(2) g n have l: "lhs' = lhs" by simp
  from s l have sr: "scale_rows (map fst active_ranges) (map snd active_ranges) lhs = Inr arr"
    by (simp add: scale_def split: if_splits)
  from scale_rows_nth[OF sr] assms(3) have len: "length arr = length lhs"
    and row: "scale_row (map fst active_ranges) (map snd active_ranges) (lhs ! i) = Inr (arr ! i)"
    by simp_all
  from assms(4) n have j: "j < 10" by simp
  note nth = scale_row_nth[OF row, of j]
  have eq: "length (lhs ! i) = 10 \<longrightarrow>
      arr ! i ! j = fst (active_ranges ! j) + (snd (active_ranges ! j) - fst (active_ranges ! j)) * lhs ! i ! j"
    using nth j by simp
  have eq1: "length (lhs ! i) \<noteq> 10 \<longrightarrow> length (lhs ! i) = 1 \<and>
      arr ! i ! j = fst (active_ranges ! j) + (snd (active_ranges ! j) - fst (active_ranges ! j)) * lhs ! i ! 0"
    using nth j by simp
  have bounds: "fst (active_ranges ! j) \<le> arr ! i ! j \<and> arr ! i ! j \<le> snd (active_ranges ! j)"
    if u: "\<forall>u\<in>set (lhs ! i). 0 \<le> u \<and> u < 1"
  proof (cases "length (lhs ! i) = 10")
    case True
    with j have "lhs ! i ! j \<in> set (lhs ! i)" by simp
    with u have "0 \<le> lhs ! i ! j \<and> lhs ! i ! j < 1" by blast
    with affine_bounds[OF active_ranges_ordered[OF j], of "lhs ! i ! j"] eq True
    show ?thesis by simp
  next
    case False
    with eq1 have one: "length (lhs ! i) = 1" by simp
    then have "lhs ! i ! 0 \<in> set (lhs ! i)" by simp
    with u have "0 \<le> lhs ! i ! 0 \<and> lhs ! i ! 0 < 1" by blast
    with affine_bounds[OF active_ranges_ordered[OF j], of "lhs ! i ! 0"] eq1 False
    show ?thesis by simp
  qed
  from len eq eq1 bounds j show ?thesis
    by (simp add: a n mn mx rg)
qed

theorem affine_rescale_bounds_witness:
  "snd (Design_init R_demo float_of_demo (''Pb'', ''Pb'', 2760) 2 False None) =
     Inr (design_demo ''Pb'' ''Pb'') \<and>
   snd (generate_lhs R_demo float_of_demo 2 (int (ndim (design_demo ''Pb'' ''Pb'')))
          (default_seed False None)) =
     Inr [[1/4, 1/4, 1/4, 1/4, 1/4, 1/4, 3/4, 1/4, 1/4, 1/4],
          [3/4, 3/4, 3/4, 3/4, 3/4, 3/4, 0, 3/4, 3/4, 3/4]] \<and>
   (1::nat) < length [[1/4, 1/4, 1/4, 1/4, 1/4, 1/4, 3/4, 1/4, 1/4, 1/4],
          [3/4, 3/4, 3/4, 3/4, 3/4, 3/4, 0, 3/4, 3/4, 3/4 :: real]] \<and>
   (6::nat) < ndim (design_demo ''Pb'' ''Pb'') \<and>
   list_all (\<lambda>u. 0 \<le> u \<and> u < 1) [3/4, 3/4, 3/4, 3/4, 3/4, 3/4, 0, 3/4, 3/4, 3/4 :: real] \<and>
   array (design_demo ''Pb'' ''Pb'') ! 1 ! 6 =
     min_d (design_demo ''Pb'' ''Pb'') ! 6 +
     (max_d (design_demo ''Pb'' ''Pb'') ! 6 - min_d (design_demo ''Pb'' ''Pb'') ! 6) * 0 \<and>
   min_d (design_demo ''Pb'' ''Pb'') ! 6 \<le> array (design_demo ''Pb'' ''Pb'') ! 1 ! 6 \<and>
   array (design_demo ''Pb'' ''Pb'') ! 1 ! 6 \<le> max_d (design_demo ''Pb'' ''Pb'') ! 6"
proof -
  have h1: "snd (Design_init R_demo float_of_demo (''Pb'', ''Pb'', 2760) 2 False None) =
     Inr (design_demo ''Pb'' ''Pb'')"
    by (simp add: Design_init_demo)
  have h2: "snd (generate_lhs R_demo float_of_demo 2 (int (ndim (design_demo ''Pb'' ''Pb'')))
          (default_seed False None)) =
     Inr [[1/4, 1/4, 1/4, 1/4, 1/4, 1/4, 3/4, 1/4, 1/4, 1/4],
          [3/4, 3/4, 3/4, 3/4, 3/4, 3/4, 0, 3/4, 3/4, 3/4]]"
    by (simp add: generate_lhs_demo)
  have h3: "(1::nat) < length [[1/4, 1/4, 1/4, 1/4, 1/4, 1/4, 3/4, 1/4, 1/4, 1/4],
          [3/4, 3/4, 3/4, 3/4, 3/4, 3/4, 0, 3/4, 3/4, 3/4 :: real]]"
    by simp
  have h4: "(6::nat) < ndim (design_demo ''Pb'' ''Pb'')"
    by (simp add: design_demo_def)
  have h5: "list_all (\<lambda>u. 0 \<le> u \<and> u < 1) [3/4, 3/4, 3/4, 3/4, 3/4, 3/4, 0, 3/4, 3/4, 3/4 :: real]"
    by simp
  from affine_rescale_bounds[OF h1 h2 h3 h4] h5
  have "array (design_demo ''Pb'' ''Pb'') ! 1 ! 6 =
     min_d (design_demo ''Pb'' ''Pb'') ! 6 +
     (max_d (design_demo ''Pb'' ''Pb'') ! 6 - min_d (design_demo ''Pb'' ''Pb'') ! 6) * 0 \<and>
   min_d (design_demo ''Pb'' ''Pb'') ! 6 \<le> array (design_demo ''Pb'' ''Pb'') ! 1 ! 6 \<and>
   array (design_demo ''Pb'' ''Pb'') ! 1 ! 6 \<le> max_d (design_demo ''Pb'' ''Pb'') ! 6"
    by (simp add: design_demo_def)
  with h1 h2 h3 h4 h5 show ?thesis by blast
qed

subsection \<open>The derived width and the design-point table\<close>

lemma area_demo_pos:
  assumes "0 \<le> u"
  shows "0 < area_demo u"
proof -
  define a :: real where "a = 0.0002 powr 0.25"
  define b :: real where "b = (0.2 * 0.3) powr 0.25"
  have "0 < a"
    unfolding a_def by simp
  moreover have "a \<le> b"
    unfolding a_def b_def by (rule powr_mono2) simp_all
  then have "0 \<le> (b - a) * u"
    using assms by simp
  ultimately have "0 < a + (b - a) * u"
    by linarith
  then show ?thesis
    unfolding area_demo_def a_def b_def .
qed

text \<open>
  C9 (as the code has it). The width is computed by dividing by the sampled
  \<^verbatim>\<open>zeta_over_s_max\<close> with no guard. For a constructed design and a row of its array whose
  \<^verbatim>\<open>zeta_over_s_max\<close> entry (column 6) is 0, no error is raised: \<open>write_files\<close> runs to its
  end, and the width of that row is \<open>inf\<close> (\<open>nan\<close> if the row's
  \<^verbatim>\<open>zeta_over_s_area_fourth\<close> entry, column 8, were 0 as well).
\<close>

theorem zero_zeta_over_s_max_gives_inf:
  assumes "snd (Design_init R float_of sys npoints validation seed) = Inr d"
    and "row \<in> set (array d)" and "row ! 6 = 0"
  shows "snd (write_files sf d dir) = Inr () \<and>
         bind_err (point_kwargs d row) (\<lambda>kwargs. dict_get kwargs ''zeta_over_s_width_in_GeV'') =
           Inr (Float (if row ! 8 = 0 then NaN else PosInf))"
proof -
  from Design_init_Inr(2)[OF assms(1)] have
    b: "beam_energy d = 2760" and k: "keys d = active_keys"
    by auto
  from Design_init_rows[OF assms(1)] assms(2) have "length row = 10" by blast
  from length_10[OF this] obtain a0 a1 a2 a3 a4 a5 a6 a7 a8 a9
    where r: "row = [a0, a1, a2, a3, a4, a5, a6, a7, a8, a9]" by blast
  from assms(3) r have z: "a6 = 0" by simp
  have "(0::real) < 2 / 3.141592" by simp
  then have w: "np_true_divide (Finite (2 / 3.141592 * a8 ^ 4)) (Finite 0) =
      (if a8 = 0 then NaN else PosInf)"
    by (simp add: zero_less_mult_iff)
  have "bind_err (point_kwargs d row) (\<lambda>kwargs. dict_get kwargs ''zeta_over_s_width_in_GeV'') =
           Inr (Float (if row ! 8 = 0 then NaN else PosInf))"
    unfolding r point_kwargs_explicit[OF b k] z w
    by (simp add: dict_get_def)
  with write_files_ok[OF assms(1)] show ?thesis by simp
qed

theorem zero_zeta_over_s_max_gives_inf_witness:
  "snd (Design_init R_demo float_of_demo (''Pb'', ''Pb'', 2760) 2 False None) =
     Inr (design_demo ''Pb'' ''Pb'') \<and>
   [16, 2.325, 1.225, 1.625, - 0.125, 0.19, 0, 0.4, area_demo (3 / 4), 0.4]
     \<in> set (array (design_demo ''Pb'' ''Pb'')) \<and>
   [16, 2.325, 1.225, 1.625, - 0.125, 0.19, 0, 0.4, area_demo (3 / 4), 0.4] ! 6 = 0 \<and>
   snd (write_files str_float_demo (design_demo ''Pb'' ''Pb'') [''inputs'']) = Inr () \<and>
   bind_err (point_kwargs (design_demo ''Pb'' ''Pb'')
               [16, 2.325, 1.225, 1.625, - 0.125, 0.19, 0, 0.4, area_demo (3 / 4), 0.4])
     (\<lambda>kwargs. dict_get kwargs ''zeta_over_s_width_in_GeV'') = Inr (Float PosInf)"
proof -
  have h1: "snd (Design_init R_demo float_of_demo (''Pb'', ''Pb'', 2760) 2 False None) =
     Inr (design_demo ''Pb'' ''Pb'')"
    by (simp add: Design_init_demo)
  have h2: "[16, 2.325, 1.225, 1.625, - 0.125, 0.19, 0, 0.4, area_demo (3 / 4), 0.4]
     \<in> set (array (design_demo ''Pb'' ''Pb''))"
    by (simp add: design_demo_def)
  have h3: "[16, 2.325, 1.225, 1.625, - 0.125, 0.19, 0, 0.4, area_demo (3 / 4), 0.4] ! 6 = (0::real)"
    by simp
  have pos: "area_demo (3 / 4) \<noteq> 0"
    using area_demo_pos[of "3 / 4"] by simp
  from zero_zeta_over_s_max_gives_inf[OF h1 h2 h3, of str_float_demo "[''inputs'']"] pos h1 h2 h3
  show ?thesis by simp
qed

text \<open>
  The run whose sample has a 0 in the column of \<^verbatim>\<open>zeta_over_s_max\<close> ends without an
  error, and \<^verbatim>\<open>,inf\<close> is written to the design-point table.
\<close>

theorem zero_zeta_over_s_max_no_error:
  "snd (design_and_write R_demo float_of_demo str_float_demo (''Pb'', ''Pb'', 2760) 2 False None
          [''inputs'']) = Inr () \<and>
   Write [''inputs'', ''design_points_main_PbPb-2760.dat''] '',inf''
     \<in> set (fst (design_and_write R_demo float_of_demo str_float_demo (''Pb'', ''Pb'', 2760) 2
                    False None [''inputs'']))"
  unfolding design_and_write_demo write_files_demo write_points_demo
  by (simp add: design_file_name_def design_demo_def)

text \<open>
  C1 (the code at a failing input). The design-point table of the run above: the header
  has the ten keys of the design, \<^verbatim>\<open>zeta_over_s_area_fourth\<close> among them; each row has
  twelve values, those of \<^verbatim>\<open>kwargs\<close>: nine sampled values (without
  \<^verbatim>\<open>zeta_over_s_area_fourth\<close>), then \<^verbatim>\<open>projectiles\<close>, \<^verbatim>\<open>cross_section\<close> and the derived
  width.
\<close>

theorem design_point_table_of_demo_run:
  "file_content (dir @ [''design_points_main_PbPb-2760.dat''])
     (fst (design_and_write R_demo float_of_demo sf (''Pb'', ''Pb'', 2760) 2 False None dir)) None =
   Some (''idx,norm,fluct_k,nucleon_width,tau_R,alpha,eta_over_s_at_kink,zeta_over_s_max,'' @
         ''zeta_over_s_T_peak_in_GeV,zeta_over_s_area_fourth,zeta_over_s_lambda_asymm'' @ nl @
         ''0,'' @ sf 12 @ '','' @ sf 0.975 @ '','' @ sf 0.675 @ '','' @ sf 0.875 @ '','' @
           sf (- 0.375) @ '','' @ sf 0.07 @ '','' @ sf 0.225 @ '','' @ sf 0.2 @ '','' @
           sf (- 0.4) @ '',Pb,'' @ sf 6.4 @ '','' @ sf demo_width @ nl @
         ''1,'' @ sf 16 @ '','' @ sf 2.325 @ '','' @ sf 1.225 @ '','' @ sf 1.625 @ '','' @
           sf (- 0.125) @ '','' @ sf 0.19 @ '','' @ sf 0 @ '','' @ sf 0.4 @ '','' @
           sf 0.4 @ '',Pb,'' @ sf 6.4 @ '',inf'' @ nl)"
  unfolding design_and_write_demo write_files_demo write_points_demo
  by (simp add: design_file_name_def range_file_name_def design_demo_def active_keys_def upt_10
        nl_def)

subsection \<open>The range table\<close>

lemma split_on_none:
  "c \<notin> set xs \<Longrightarrow> split_on c xs = [xs]"
  by (induction xs) auto

lemma split_on_append:
  "c \<notin> set xs \<Longrightarrow> split_on c (xs @ c # ys) = xs # split_on c ys"
  by (induction xs) auto

lemma split_on_lines:
  assumes "\<forall>r\<in>set rows. c \<notin> set r"
  shows "split_on c (concat (map (\<lambda>r. r @ [c]) rows)) = rows @ [[]]"
  using assms
proof (induction rows)
  case Nil
  then show ?case by simp
next
  case (Cons r rows)
  then show ?case
    using split_on_append[of c r "concat (map (\<lambda>r. r @ [c]) rows)"] by simp
qed

lemma parse_range_row_written:
  assumes "CHR '','' \<notin> set (fst kr)"
    and "CHR '','' \<notin> set (sf (fst (snd kr)))" and "CHR '','' \<notin> set (sf (snd (snd kr)))"
    and "parse (sf (fst (snd kr))) = Some (fst (snd kr))"
    and "parse (sf (snd (snd kr))) = Some (snd (snd kr))"
  shows "parse_range_row parse (range_line sf kr) = Some kr"
proof -
  have "split_on CHR '','' (fst kr @ CHR '','' # sf (fst (snd kr)) @ CHR '','' # sf (snd (snd kr))) =
      [fst kr, sf (fst (snd kr)), sf (snd (snd kr))]"
    using assms(1-3) by (simp add: split_on_append split_on_none)
  with assms(4,5) show ?thesis
    by (simp add: parse_range_row_def range_line_def)
qed

lemma those_map_Some:
  assumes "\<forall>x\<in>set xs. f x = Some x"
  shows "those (map f xs) = Some xs"
  using assms by (induction xs) simp_all

lemma file_content_append:
  "file_content p (es1 @ es2) acc = file_content p es2 (file_content p es1 acc)"
  by (induction p es1 acc rule: file_content.induct) simp_all

lemma file_content_writes:
  "file_content p (map (\<lambda>x. Write p (g x)) xs) (Some c) = Some (c @ concat (map g xs))"
  by (induction xs arbitrary: c) simp_all

lemma write_ranges_Inr:
  assumes "snd (write_ranges sf d f is) = Inr u"
  shows "\<forall>i\<in>set is. i < length (range_d d)"
  using assms by (induction "is") (auto split: if_splits)

lemma map_index_zip:
  assumes "length xs \<le> length ys"
  shows "map (\<lambda>i. g (xs ! i, ys ! i)) [0..<length xs] = map g (zip xs ys)"
  using assms by (intro nth_equalityI) simp_all

text \<open>
  What \<open>write_files\<close> leaves in the range file, for any design it can write: the header
  and one line per key.
\<close>

lemma range_file_content:
  assumes "snd (write_files sf d dir) = Inr ()"
  shows "length (keys d) \<le> length (range_d d)"
    and "file_content (dir @ [range_file_name d]) (fst (write_files sf d dir)) None =
      Some ((''param,min,max'' @ nl) @
            concat (map (\<lambda>kr. range_line sf kr @ nl) (zip (keys d) (range_d d))))"
proof -
  let ?rf = "dir @ [range_file_name d]"
  let ?df = "dir @ [design_file_name d]"
  let ?looped = "write_points sf d (dir @ [type_d d, system d]) ?df (zip (points d) (array d))"
  let ?ranges = "write_ranges sf d ?rf [0..<length (keys d)]"
  let ?before = "[Mkdir (dir @ [type_d d, system d]), Open ?df, Write ?df ''idx''] @
       map (\<lambda>key. Write ?df ('','' @ key)) (keys d) @ [Write ?df nl] @ fst ?looped @ [Close ?df]"
  from assms obtain u where r: "snd ?ranges = Inr u"
    by (auto simp: write_files_def Let_def split: sum.splits)
  from write_ranges_Inr[OF r] have lt: "\<forall>i\<in>set [0..<length (keys d)]. i < length (range_d d)" .
  then show le: "length (keys d) \<le> length (range_d d)"
    by (cases "length (keys d)") (auto simp: less_Suc_eq_le)
  have "fst ?ranges =
      map (\<lambda>i. Write ?rf (range_line sf (keys d ! i, range_d d ! i) @ nl)) [0..<length (keys d)]"
    by (simp add: write_ranges_events[OF lt] range_line_def)
  also have "\<dots> = map (\<lambda>kr. Write ?rf (range_line sf kr @ nl)) (zip (keys d) (range_d d))"
    by (rule map_index_zip[OF le])
  finally have ev: "fst ?ranges =
      map (\<lambda>kr. Write ?rf (range_line sf kr @ nl)) (zip (keys d) (range_d d))" .
  from assms r have tr: "fst (write_files sf d dir) =
      ?before @ [Open ?rf, Write ?rf (''param,min,max'' @ nl)] @
      map (\<lambda>kr. Write ?rf (range_line sf kr @ nl)) (zip (keys d) (range_d d)) @ [Close ?rf]"
    unfolding ev[symmetric]
    by (auto simp: write_files_def Let_def split: sum.splits)
  have 1: "file_content ?rf [Open ?rf, Write ?rf (''param,min,max'' @ nl)] acc =
      Some (''param,min,max'' @ nl)" for acc
    by simp
  have 2: "file_content ?rf [Close ?rf] acc = acc" for acc
    by simp
  show "file_content ?rf (fst (write_files sf d dir)) None =
      Some ((''param,min,max'' @ nl) @
            concat (map (\<lambda>kr. range_line sf kr @ nl) (zip (keys d) (range_d d))))"
    unfolding tr file_content_append 1 2 file_content_writes ..
qed

lemma read_range_file_written:
  assumes "\<forall>kr\<in>set krs. CHR '','' \<notin> set (fst kr) \<and> CHR 0x0A \<notin> set (fst kr) \<and>
             parse (sf (fst (snd kr))) = Some (fst (snd kr)) \<and>
             parse (sf (snd (snd kr))) = Some (snd (snd kr)) \<and>
             CHR '','' \<notin> set (sf (fst (snd kr))) \<and> CHR '','' \<notin> set (sf (snd (snd kr))) \<and>
             CHR 0x0A \<notin> set (sf (fst (snd kr))) \<and> CHR 0x0A \<notin> set (sf (snd (snd kr)))"
  shows "read_range_file parse
           ((''param,min,max'' @ nl) @ concat (map (\<lambda>kr. range_line sf kr @ nl) krs)) =
         Some krs"
proof -
  have c: "concat (map (\<lambda>kr. range_line sf kr @ nl) krs) =
        concat (map (\<lambda>r. r @ [CHR 0x0A]) (map (range_line sf) krs))"
    by (simp add: nl_def comp_def)
  have nonl: "\<forall>r\<in>set (map (range_line sf) krs). CHR 0x0A \<notin> set r"
    using assms by (auto simp: range_line_def)
  have "split_on (CHR 0x0A) (''param,min,max'' @ CHR 0x0A #
          concat (map (\<lambda>r. r @ [CHR 0x0A]) (map (range_line sf) krs))) =
      ''param,min,max'' # split_on (CHR 0x0A)
          (concat (map (\<lambda>r. r @ [CHR 0x0A]) (map (range_line sf) krs)))"
    by (rule split_on_append) simp
  then have lines: "split_on (CHR 0x0A)
        ((''param,min,max'' @ nl) @ concat (map (\<lambda>kr. range_line sf kr @ nl) krs)) =
      ''param,min,max'' # map (range_line sf) krs @ [[]]"
    unfolding c split_on_lines[OF nonl] by (simp add: nl_def)
  have parsed: "\<forall>kr\<in>set krs. parse_range_row parse (range_line sf kr) = Some kr"
    using assms by (auto intro!: parse_range_row_written)
  have "those (map (\<lambda>kr. parse_range_row parse (range_line sf kr)) krs) = Some krs"
    by (rule those_map_Some[OF parsed])
  then have "those (map (parse_range_row parse) (map (range_line sf) krs)) = Some krs"
    by (simp add: comp_def)
  then show ?thesis
    unfolding read_range_file_def lines by simp
qed

text \<open>
  C7. For a constructed design, \<open>write_files\<close> leaves in the range file the header
  \<^verbatim>\<open>param,min,max\<close> and one line per key, in the order of the keys; read back, the lines
  give each key with exactly its entry of \<open>range_d\<close>, provided that \<^verbatim>\<open>str\<close> and the
  parser of floats are inverse to each other on the bounds of the ranges (as Python's
  \<^verbatim>\<open>str\<close> and \<^verbatim>\<open>float\<close> are) and that \<^verbatim>\<open>str\<close> of a bound contains no comma and no
  newline.
\<close>

theorem range_table_round_trip:
  assumes "snd (Design_init R float_of sys npoints validation seed) = Inr d"
    and "\<forall>r\<in>set (range_d d).
           parse (sf (fst r)) = Some (fst r) \<and> parse (sf (snd r)) = Some (snd r) \<and>
           CHR '','' \<notin> set (sf (fst r)) \<and> CHR '','' \<notin> set (sf (snd r)) \<and>
           CHR 0x0A \<notin> set (sf (fst r)) \<and> CHR 0x0A \<notin> set (sf (snd r))"
  shows "Option.bind
           (file_content (dir @ [range_file_name d]) (fst (write_files sf d dir)) None)
           (read_range_file parse) =
         Some (zip (keys d) (range_d d)) \<and>
         length (keys d) = length (range_d d)"
proof -
  from Design_init_Inr(2)[OF assms(1)] have
    k: "keys d = active_keys" and r: "range_d d = active_ranges"
    by auto
  have ok: "snd (write_files sf d dir) = Inr ()"
    by (rule write_files_ok[OF assms(1)])
  have keys_ok: "\<forall>k\<in>set (keys d). CHR '','' \<notin> set k \<and> CHR 0x0A \<notin> set k"
    by (simp add: k active_keys_def)
  have all: "\<forall>kr\<in>set (zip (keys d) (range_d d)).
             CHR '','' \<notin> set (fst kr) \<and> CHR 0x0A \<notin> set (fst kr) \<and>
             parse (sf (fst (snd kr))) = Some (fst (snd kr)) \<and>
             parse (sf (snd (snd kr))) = Some (snd (snd kr)) \<and>
             CHR '','' \<notin> set (sf (fst (snd kr))) \<and> CHR '','' \<notin> set (sf (snd (snd kr))) \<and>
             CHR 0x0A \<notin> set (sf (fst (snd kr))) \<and> CHR 0x0A \<notin> set (sf (snd (snd kr)))"
  proof
    fix kr assume m: "kr \<in> set (zip (keys d) (range_d d))"
    obtain k' r' where kr: "kr = (k', r')" by (cases kr)
    with m have "k' \<in> set (keys d)" "r' \<in> set (range_d d)"
      by (auto dest: set_zip_leftD set_zip_rightD)
    with keys_ok assms(2) kr show "CHR '','' \<notin> set (fst kr) \<and> CHR 0x0A \<notin> set (fst kr) \<and>
             parse (sf (fst (snd kr))) = Some (fst (snd kr)) \<and>
             parse (sf (snd (snd kr))) = Some (snd (snd kr)) \<and>
             CHR '','' \<notin> set (sf (fst (snd kr))) \<and> CHR '','' \<notin> set (sf (snd (snd kr))) \<and>
             CHR 0x0A \<notin> set (sf (fst (snd kr))) \<and> CHR 0x0A \<notin> set (sf (snd (snd kr)))"
      by simp
  qed
  have len: "length (keys d) = length (range_d d)"
    by (simp add: k r)
  have "Option.bind
           (file_content (dir @ [range_file_name d]) (fst (write_files sf d dir)) None)
           (read_range_file parse) = Some (zip (keys d) (range_d d))"
    unfolding range_file_content(2)[OF ok] bind.bind_lunit read_range_file_written[OF all] ..
  then show ?thesis using len by (rule conjI)
qed

lemma fourth_root_bounds:
  "(1 / 10 :: real) < 0.0002 powr 0.25" "(0.0002 :: real) powr 0.25 < 1 / 4"
  "(2 / 5 :: real) < (0.2 * 0.3) powr 0.25" "((0.2 * 0.3) :: real) powr 0.25 < 1 / 2"
proof -
  have root: "(x ^ 4) powr 0.25 = x" if "0 < x" for x :: real
  proof -
    have "(x ^ 4) powr 0.25 = (x powr 4) powr 0.25"
      using that by (simp add: powr_numeral)
    also have "\<dots> = x powr 1"
      by (simp add: powr_powr)
    finally show ?thesis using that by simp
  qed
  have "((1 / 10) ^ 4 :: real) powr 0.25 < 0.0002 powr 0.25"
    by (rule powr_less_mono2) (simp_all add: power_divide)
  then show "(1 / 10 :: real) < 0.0002 powr 0.25"
    using root[of "1 / 10"] by simp
  have "(0.0002 :: real) powr 0.25 < ((1 / 4) ^ 4) powr 0.25"
    by (rule powr_less_mono2) (simp_all add: power_divide)
  then show "(0.0002 :: real) powr 0.25 < 1 / 4"
    using root[of "1 / 4"] by simp
  have "((2 / 5) ^ 4 :: real) powr 0.25 < (0.2 * 0.3) powr 0.25"
    by (rule powr_less_mono2) (simp_all add: power_divide)
  then show "(2 / 5 :: real) < (0.2 * 0.3) powr 0.25"
    using root[of "2 / 5"] by simp
  have "((0.2 * 0.3) :: real) powr 0.25 < ((1 / 2) ^ 4) powr 0.25"
    by (rule powr_less_mono2) (simp_all add: power_divide)
  then show "((0.2 * 0.3) :: real) powr 0.25 < 1 / 2"
    using root[of "1 / 2"] by simp
qed

lemma demo_round_trip:
  "list_all (\<lambda>r.
     float_of_demo (str_float_demo (fst r)) = Some (fst r) \<and>
     float_of_demo (str_float_demo (snd r)) = Some (snd r) \<and>
     CHR '','' \<notin> set (str_float_demo (fst r)) \<and> CHR '','' \<notin> set (str_float_demo (snd r)) \<and>
     CHR 0x0A \<notin> set (str_float_demo (fst r)) \<and> CHR 0x0A \<notin> set (str_float_demo (snd r)))
   active_ranges"
proof -
  define a :: real where "a = 0.0002 powr 0.25"
  define b :: real where "b = (0.2 * 0.3) powr 0.25"
  have ab: "1 / 10 < a" "a < 1 / 4" "2 / 5 < b" "b < 1 / 2"
    using fourth_root_bounds unfolding a_def b_def by blast+
  have ne: "x \<noteq> a \<and> x \<noteq> b" if "x \<le> 1 / 10 \<or> (1 / 4 \<le> x \<and> x \<le> 2 / 5) \<or> 1 / 2 \<le> x" for x
    using ab that by auto
  have sa: "str_float_demo a = ''0.11892071150027211''"
    unfolding str_float_demo_def a_def[symmetric] by simp
  have sb: "str_float_demo b = ''0.4949232003839765''"
    unfolding str_float_demo_def a_def[symmetric] b_def[symmetric] using ab by simp
  have s: "str_float_demo 10 = ''10.0''" "str_float_demo 18 = ''18.0''"
    "str_float_demo 0.3 = ''0.3''" "str_float_demo 3.0 = ''3.0''"
    "str_float_demo 0.4 = ''0.4''" "str_float_demo 1.5 = ''1.5''"
    "str_float_demo 0.5 = ''0.5''" "str_float_demo 2.0 = ''2.0''"
    "str_float_demo (- 0.5) = ''-0.5''" "str_float_demo 0.0 = ''0.0''"
    "str_float_demo 0.01 = ''0.01''" "str_float_demo 0.25 = ''0.25''"
    "str_float_demo 0.1 = ''0.1''"
    "str_float_demo (- 0.8) = ''-0.8''" "str_float_demo 0.8 = ''0.8''"
    unfolding str_float_demo_def a_def[symmetric] b_def[symmetric]
    using ne[of 10] ne[of 18] ne[of "0.3"] ne[of 3] ne[of "0.4"] ne[of "1.5"] ne[of "0.5"]
      ne[of 2] ne[of "- 0.5"] ne[of 0] ne[of "0.01"] ne[of "0.25"] ne[of "0.1"] ne[of "- 0.8"]
      ne[of "0.8"]
    by simp_all
  have f: "float_of_demo ''0.11892071150027211'' = Some a"
    "float_of_demo ''0.4949232003839765'' = Some b"
    "float_of_demo ''10.0'' = Some 10" "float_of_demo ''18.0'' = Some 18"
    "float_of_demo ''0.3'' = Some 0.3" "float_of_demo ''3.0'' = Some 3.0"
    "float_of_demo ''0.4'' = Some 0.4" "float_of_demo ''1.5'' = Some 1.5"
    "float_of_demo ''0.5'' = Some 0.5" "float_of_demo ''2.0'' = Some 2.0"
    "float_of_demo ''-0.5'' = Some (- 0.5)" "float_of_demo ''0.0'' = Some 0.0"
    "float_of_demo ''0.01'' = Some 0.01" "float_of_demo ''0.25'' = Some 0.25"
    "float_of_demo ''0.1'' = Some 0.1"
    "float_of_demo ''-0.8'' = Some (- 0.8)" "float_of_demo ''0.8'' = Some 0.8"
    by (simp_all add: float_of_demo_def a_def b_def)
  show ?thesis
    unfolding active_ranges_def a_def[symmetric] b_def[symmetric]
    by (simp only: list.pred_inject fst_conv snd_conv s sa sb f) simp
qed

theorem range_table_round_trip_witness:
  "snd (Design_init R_demo float_of_demo (''Pb'', ''Pb'', 2760) 2 False None) =
     Inr (design_demo ''Pb'' ''Pb'') \<and>
   list_all (\<lambda>r.
       float_of_demo (str_float_demo (fst r)) = Some (fst r) \<and>
       float_of_demo (str_float_demo (snd r)) = Some (snd r) \<and>
       CHR '','' \<notin> set (str_float_demo (fst r)) \<and> CHR '','' \<notin> set (str_float_demo (snd r)) \<and>
       CHR 0x0A \<notin> set (str_float_demo (fst r)) \<and> CHR 0x0A \<notin> set (str_float_demo (snd r)))
     (range_d (design_demo ''Pb'' ''Pb'')) \<and>
   Option.bind
     (file_content [''inputs'', range_file_name (design_demo ''Pb'' ''Pb'')]
        (fst (write_files str_float_demo (design_demo ''Pb'' ''Pb'') [''inputs''])) None)
     (read_range_file float_of_demo) =
   Some (zip (keys (design_demo ''Pb'' ''Pb'')) (range_d (design_demo ''Pb'' ''Pb''))) \<and>
   length (keys (design_demo ''Pb'' ''Pb'')) = length (range_d (design_demo ''Pb'' ''Pb''))"
proof -
  have h1: "snd (Design_init R_demo float_of_demo (''Pb'', ''Pb'', 2760) 2 False None) =
     Inr (design_demo ''Pb'' ''Pb'')"
    by (simp add: Design_init_demo)
  have h2: "\<forall>r\<in>set (range_d (design_demo ''Pb'' ''Pb'')).
       float_of_demo (str_float_demo (fst r)) = Some (fst r) \<and>
       float_of_demo (str_float_demo (snd r)) = Some (snd r) \<and>
       CHR '','' \<notin> set (str_float_demo (fst r)) \<and> CHR '','' \<notin> set (str_float_demo (snd r)) \<and>
       CHR 0x0A \<notin> set (str_float_demo (fst r)) \<and> CHR 0x0A \<notin> set (str_float_demo (snd r))"
    using demo_round_trip by (simp add: demo_ranges list_all_iff)
  from range_table_round_trip[OF h1 h2, of "[''inputs'']"] h1 h2
  show ?thesis
    by (simp add: list_all_iff)
qed

end
